theory Spec2Isabelle
  imports Main "HOL-Library.Word" "HOL-Library.AList"
begin

unbundle bit_operations_syntax

section \<open>The ZFS property bridge of the Lustre mount utilities\<close>

text \<open>
  A shallow embedding of \<^verbatim>\<open>lustre/utils/mount_utils_zfs.c\<close>. C strings are
  \<^typ>\<open>string\<close> (the bytes before the terminating NUL), C \<^verbatim>\<open>int\<close> return codes are
  \<^typ>\<open>int\<close>, the 32-bit fields of the disk data are \<^typ>\<open>32 word\<close>. Everything the
  code reaches outside its own memory (the datasets and their user properties, the host-id
  files, the allocator, the error stream) is a field of the record \<open>world\<close>, passed
  in and returned. Output of \<^verbatim>\<open>vprint\<close> (verbose progress on stdout) is not modelled, and
  neither are the capacities of the destination buffers of \<^verbatim>\<open>strcpy\<close> and
  \<^verbatim>\<open>sprintf\<close>. \<^verbatim>\<open>zfs_init\<close> and \<^verbatim>\<open>zfs_fini\<close>, which set and clear the flag
  \<^verbatim>\<open>osd_zfs_setup\<close>, are not modelled either: the flag is a field of the world.
\<close>

subsection \<open>Error numbers (Linux \<^verbatim>\<open>errno.h\<close>)\<close>

definition ENOENT :: int where "ENOENT = 2"
definition ENOMEM :: int where "ENOMEM = 12"
definition EINVAL :: int where "EINVAL = 22"
definition ERANGE :: int where "ERANGE = 34"
definition ENOSYS :: int where "ENOSYS = 38"

text \<open>\<^verbatim>\<open>PATH_MAX\<close> of \<^verbatim>\<open>linux/limits.h\<close>.\<close>

definition PATH_MAX :: nat where "PATH_MAX = 4096"

subsection \<open>The C library on strings\<close>

text \<open>\<^verbatim>\<open>strstr(h, n) != NULL\<close>: the needle occurs in the haystack.\<close>

fun strstr :: "string \<Rightarrow> string \<Rightarrow> bool" where
  "strstr [] n = (n = [])"
| "strstr (c # cs) n = (take (length n) (c # cs) = n \<or> strstr cs n)"

text \<open>\<^verbatim>\<open>strncmp(s, p, strlen(p)) == 0\<close>: \<open>s\<close> starts with \<open>p\<close>.\<close>

definition strncmp_eq :: "string \<Rightarrow> string \<Rightarrow> bool" where
  "strncmp_eq s p = (take (length p) s = p)"

text \<open>
  \<^verbatim>\<open>strtok_r(s, delim, &save)\<close> on the C string \<open>s\<close>: skip the leading delimiters; with
  nothing left the result is NULL; otherwise the token is the longest run without a
  delimiter, the delimiter after it (if any) is overwritten with NUL, and the save pointer
  is left behind it. The result is the token and the string at the save pointer.
\<close>

definition strtok_r :: "string \<Rightarrow> string \<Rightarrow> (string \<times> string) option" where
  "strtok_r s delim =
     (let s1 = dropWhile (\<lambda>c. c \<in> set delim) s
      in if s1 = [] then None
         else Some (takeWhile (\<lambda>c. c \<notin> set delim) s1,
                    drop 1 (dropWhile (\<lambda>c. c \<notin> set delim) s1)))"

text \<open>
  What the C string at the address \<open>s\<close> reads after \<^verbatim>\<open>strtok(s, delim)\<close> has written
  its NUL: the leading delimiters and the token, or \<open>s\<close> itself when there is no token.
\<close>

definition strtok_buf :: "string \<Rightarrow> string \<Rightarrow> string" where
  "strtok_buf s delim =
     takeWhile (\<lambda>c. c \<in> set delim) s @
     takeWhile (\<lambda>c. c \<notin> set delim) (dropWhile (\<lambda>c. c \<in> set delim) s)"

subsection \<open>Decimal output and input\<close>

definition digit_char :: "nat \<Rightarrow> char" where
  "digit_char d = ''0123456789'' ! d"

text \<open>\<^verbatim>\<open>isdigit(c)\<close> and \<^verbatim>\<open>c - '0'\<close> on the character codes.\<close>

definition isdigit :: "char \<Rightarrow> bool" where
  "isdigit c =
     (of_char (CHR ''0'') \<le> (of_char c :: nat) \<and> (of_char c :: nat) \<le> of_char (CHR ''9''))"

definition digit_of :: "char \<Rightarrow> nat option" where
  "digit_of c = (if isdigit c then Some (of_char c - of_char (CHR ''0'')) else None)"

fun digits :: "nat \<Rightarrow> string" where
  "digits n = (if n < 10 then [digit_char n] else digits (n div 10) @ [digit_char (n mod 10)])"

declare digits.simps [simp del]

text \<open>\<^verbatim>\<open>snprintf(str, 64, "%i", v)\<close>: a 32-bit int never needs more than 11 characters.\<close>

definition fmt_i :: "int \<Rightarrow> string" where
  "fmt_i i = (if i < 0 then CHR ''-'' # digits (nat (- i)) else digits (nat i))"

definition isspace :: "char \<Rightarrow> bool" where
  "isspace c = (c \<in> set [CHR '' '', CHR 0x09, CHR 0x0A, CHR 0x0B, CHR 0x0C, CHR 0x0D])"

fun strtoul_digits :: "string \<Rightarrow> nat \<Rightarrow> nat" where
  "strtoul_digits [] acc = acc"
| "strtoul_digits (c # cs) acc =
     (case digit_of c of None \<Rightarrow> acc | Some d \<Rightarrow> strtoul_digits cs (acc * 10 + d))"

definition ULONG_MAX :: nat where "ULONG_MAX = 2 ^ 64 - 1"

text \<open>
  \<^verbatim>\<open>errno = 0; strtoul(s, NULL, 10)\<close> with a 64-bit \<^verbatim>\<open>unsigned long\<close>: the value of
  \<^verbatim>\<open>errno\<close> afterwards and the result. White space is skipped, one sign is accepted,
  the digits are read as far as they go (none: the result is 0), a magnitude above
  \<^verbatim>\<open>ULONG_MAX\<close> gives \<^verbatim>\<open>ULONG_MAX\<close> and \<^verbatim>\<open>ERANGE\<close>, and a minus sign negates the
  result in \<^verbatim>\<open>unsigned long\<close>.
\<close>

definition strtoul :: "string \<Rightarrow> int \<times> 64 word" where
  "strtoul s =
     (let s1 = dropWhile isspace s;
          neg = (case s1 of [] \<Rightarrow> False | c # _ \<Rightarrow> c = CHR ''-'');
          s2 = (case s1 of [] \<Rightarrow> []
                | c # cs \<Rightarrow> if c = CHR ''-'' \<or> c = CHR ''+'' then cs else c # cs);
          n = strtoul_digits s2 0
      in if ULONG_MAX < n then (ERANGE, - 1)
         else (0, if neg then - of_nat n else of_nat n))"

subsection \<open>The disk data and the options of the callers\<close>

text \<open>
  \<^verbatim>\<open>struct lustre_disk_data\<close>, \<^verbatim>\<open>struct mkfs_opts\<close> and \<^verbatim>\<open>struct mount_opts\<close> are
  declared in headers; the fields below are the ones this file touches, with the types its
  casts give them.
\<close>

record lustre_disk_data =
  ldd_config_ver :: "32 word"
  ldd_flags :: "32 word"
  ldd_svindex :: "32 word"
  ldd_mount_type :: "32 word"
  ldd_fsname :: string
  ldd_svname :: string
  ldd_uuid :: string
  ldd_userdata :: string
  ldd_mount_opts :: string
  ldd_params :: string

record mkfs_opts =
  mo_ldd :: lustre_disk_data
  mo_device :: string
  mo_mkfsopts :: string
  mo_pool_vdevs :: "string list option"
  mo_device_kb :: "64 word"
  mo_flags :: "32 word"

text \<open>\<^verbatim>\<open>struct mount_opts\<close>: its \<^verbatim>\<open>mo_ldd\<close> is \<open>mo_ldd_mnt\<close> here.\<close>

record mount_opts =
  mo_ldd_mnt :: lustre_disk_data
  mo_source :: string

subsection \<open>The world outside\<close>

datatype zfs_type = ZFS_TYPE_FILESYSTEM | ZFS_TYPE_SNAPSHOT | ZFS_TYPE_VOLUME

text \<open>
  The user properties of a dataset, as \<^verbatim>\<open>zfs_get_user_props\<close> returns them: an nvlist
  with one pair per property, in enumeration order; the pair's value is an nvlist of its
  own, of which the code reads the string \<^verbatim>\<open>ZPROP_VALUE\<close> (\<open>None\<close>: there is no such
  string in it).
\<close>

type_synonym nvlist = "(string \<times> string option) list"

record dataset =
  ds_type :: zfs_type
  ds_props :: "nvlist option"

text \<open>A dataset handle is the name it was opened by.\<close>

type_synonym zfs_handle = string

datatype spl_file =
  SplNoOpen int
| SplScan int "64 word"

datatype hostid_file =
  HostidNoOpen
| HostidRead int "32 word"

datatype event =
  EvOpen string zfs_type bool
| EvClose string
| EvPropSet string string string int
| EvDestroy string int
| EvFopen string
| EvFileCreate string "64 word" int
| EvRunCommand string int

datatype diag = Fatal | Msg string

text \<open>
  \<^item> \<open>osd_zfs_setup\<close>: the static flag of the file;
  \<^item> \<open>datasets\<close>, \<open>pools\<close>: what the volume manager holds;
  \<^item> \<open>open_handles\<close>: the dataset handles opened and not yet closed;
  \<^item> \<open>mem_avail\<close>: how many more allocations succeed;
  \<^item> \<open>spl_hostid\<close>: \<^verbatim>\<open>/sys/module/spl/parameters/spl_hostid\<close>: \<open>SplNoOpen e\<close> when
    \<^verbatim>\<open>fopen\<close> fails with errno \<open>e\<close>, else \<open>SplScan rc v\<close> for what \<^verbatim>\<open>fscanf\<close> returns
    and stores;
  \<^item> \<open>etc_hostid\<close>: \<^verbatim>\<open>/etc/hostid\<close>: \<open>HostidNoOpen\<close> or \<open>HostidRead rc v\<close> for what
    \<^verbatim>\<open>fread\<close> returns and the four bytes it read;
  \<^item> \<open>prop_set_err\<close>, \<open>destroy_err\<close>, \<open>name_valid\<close>, \<open>access_err\<close>,
    \<open>file_create_err\<close>, \<open>command_status\<close>: what the library, the file system and the
    external commands answer;
  \<^item> \<open>trace\<close>: the calls that open, close or change something, in order;
  \<^item> \<open>stderr\<close>: the diagnostics written, in order.
\<close>

record world =
  osd_zfs_setup :: int
  datasets :: "(string \<times> dataset) list"
  pools :: "string list"
  open_handles :: "zfs_handle list"
  mem_avail :: nat
  spl_hostid :: spl_file
  etc_hostid :: hostid_file
  prop_set_err :: "string \<Rightarrow> string \<Rightarrow> string \<Rightarrow> int"
  destroy_err :: "string \<Rightarrow> int"
  name_valid :: "string \<Rightarrow> bool"
  access_err :: "string \<Rightarrow> int"
  file_create_err :: "string \<Rightarrow> 64 word \<Rightarrow> int"
  command_status :: "string \<Rightarrow> int"
  trace :: "event list"
  stderr :: "diag list"

subsection \<open>libzfs and libnvpair\<close>

definition zfs_open :: "string \<Rightarrow> zfs_type \<Rightarrow> world \<Rightarrow> zfs_handle option \<times> world" where
  "zfs_open ds ty w =
     (case map_of (datasets w) ds of
        None \<Rightarrow> (None, w\<lparr>trace := trace w @ [EvOpen ds ty False]\<rparr>)
      | Some d \<Rightarrow>
          if ds_type d = ty
          then (Some ds, w\<lparr>open_handles := ds # open_handles w,
                            trace := trace w @ [EvOpen ds ty True]\<rparr>)
          else (None, w\<lparr>trace := trace w @ [EvOpen ds ty False]\<rparr>))"

definition zfs_close :: "zfs_handle \<Rightarrow> world \<Rightarrow> world" where
  "zfs_close zhp w =
     w\<lparr>open_handles := remove1 zhp (open_handles w), trace := trace w @ [EvClose zhp]\<rparr>"

definition zfs_get_user_props :: "zfs_handle \<Rightarrow> world \<Rightarrow> nvlist option" where
  "zfs_get_user_props zhp w =
     (case map_of (datasets w) zhp of None \<Rightarrow> None | Some d \<Rightarrow> ds_props d)"

text \<open>
  \<^verbatim>\<open>zfs_prop_set\<close>: the library's answer is \<open>prop_set_err\<close>; on 0 the property is stored
  (replacing a value of the same name) and the handle's properties are refreshed. A handle
  whose dataset is gone gets \<open>-1\<close>.
\<close>

definition zfs_prop_set :: "zfs_handle \<Rightarrow> string \<Rightarrow> string \<Rightarrow> world \<Rightarrow> int \<times> world" where
  "zfs_prop_set zhp pname v w =
     (case map_of (datasets w) zhp of
        None \<Rightarrow> (- 1, w\<lparr>trace := trace w @ [EvPropSet zhp pname v (- 1)]\<rparr>)
      | Some d \<Rightarrow>
          let e = prop_set_err w zhp pname v in
          if e \<noteq> 0 then (e, w\<lparr>trace := trace w @ [EvPropSet zhp pname v e]\<rparr>)
          else (0, w\<lparr>datasets :=
                        AList.update zhp
                          (d\<lparr>ds_props := Some (AList.update pname (Some v)
                                (case ds_props d of None \<Rightarrow> [] | Some ps \<Rightarrow> ps))\<rparr>)
                          (datasets w),
                      trace := trace w @ [EvPropSet zhp pname v 0]\<rparr>))"

text \<open>\<^verbatim>\<open>nvlist_lookup_nvlist\<close>: \<^verbatim>\<open>EINVAL\<close> on a NULL list, \<^verbatim>\<open>ENOENT\<close> when no pair has the name.\<close>

definition nvlist_lookup_nvlist :: "nvlist option \<Rightarrow> string \<Rightarrow> int + string option" where
  "nvlist_lookup_nvlist nvl name =
     (case nvl of
        None \<Rightarrow> Inl EINVAL
      | Some ps \<Rightarrow> (case map_of ps name of None \<Rightarrow> Inl ENOENT | Some pv \<Rightarrow> Inr pv))"

text \<open>\<^verbatim>\<open>nvlist_lookup_string(propval, ZPROP_VALUE, &propstr)\<close>.\<close>

definition nvlist_lookup_string :: "string option \<Rightarrow> int + string" where
  "nvlist_lookup_string pv = (case pv of None \<Rightarrow> Inl ENOENT | Some s \<Rightarrow> Inr s)"

subsection \<open>The typed accessors\<close>

definition LDD_PREFIX :: string where "LDD_PREFIX = ''lustre:''"

text \<open>\<^verbatim>\<open>*(int *)val\<close> is printed with \<^verbatim>\<open>%i\<close>: the field read as a signed number.\<close>

definition zfs_set_prop_int :: "zfs_handle \<Rightarrow> string \<Rightarrow> 32 word \<Rightarrow> world \<Rightarrow> int \<times> world" where
  "zfs_set_prop_int zhp pname val w = zfs_prop_set zhp pname (fmt_i (sint val)) w"

text \<open>The value is a pointer: \<open>None\<close> is NULL.\<close>

definition zfs_set_prop_str :: "zfs_handle \<Rightarrow> string \<Rightarrow> string option \<Rightarrow> world \<Rightarrow> int \<times> world" where
  "zfs_set_prop_str zhp pname val w =
     (case val of
        None \<Rightarrow> (0, w)
      | Some s \<Rightarrow> if 0 < length s then zfs_prop_set zhp pname s w else (0, w))"

text \<open>
  The getters take what the field holds and return the code and what the field holds
  afterwards. \<^verbatim>\<open>zfs_get_prop_int\<close> stores the converted number before it looks at
  \<^verbatim>\<open>errno\<close>.
\<close>

definition zfs_get_prop_int :: "zfs_handle \<Rightarrow> string \<Rightarrow> 32 word \<Rightarrow> world \<Rightarrow> int \<times> 32 word" where
  "zfs_get_prop_int zhp pname val w =
     (case nvlist_lookup_nvlist (zfs_get_user_props zhp w) pname of
        Inl e \<Rightarrow> (e, val)
      | Inr propval \<Rightarrow>
          (case nvlist_lookup_string propval of
             Inl e \<Rightarrow> (e, val)
           | Inr propstr \<Rightarrow>
               let (err, n) = strtoul propstr in
               if err \<noteq> 0 then (err, ucast n) else (0, ucast n)))"

definition zfs_get_prop_str :: "zfs_handle \<Rightarrow> string \<Rightarrow> string \<Rightarrow> world \<Rightarrow> int \<times> string" where
  "zfs_get_prop_str zhp pname val w =
     (case nvlist_lookup_nvlist (zfs_get_user_props zhp w) pname of
        Inl e \<Rightarrow> (e, val)
      | Inr propval \<Rightarrow>
          (case nvlist_lookup_string propval of
             Inl e \<Rightarrow> (e, val)
           | Inr propstr \<Rightarrow> (0, propstr)))"

subsection \<open>What \<^verbatim>\<open>mount_utils.h\<close> declares\<close>

text \<open>
  The flag bits, the mount type, the name of the failover parameter, the program name and
  the helpers \<^verbatim>\<open>add_param\<close> and \<^verbatim>\<open>strscat\<close> come from headers and from
  \<^verbatim>\<open>mount_utils.c\<close>; every function below that uses one of them takes them as the
  parameter \<open>h\<close>. \<open>add_param h buf key val\<close> is the return code and the buffer
  afterwards; \<open>strscat h dst src buflen\<close> is the destination afterwards, \<open>None\<close> when
  the helper does not return.
\<close>

record mount_utils =
  MO_NOHOSTID_CHECK :: "32 word"
  MO_FORCEFORMAT :: "32 word"
  LDD_F_NEED_INDEX :: "32 word"
  LDD_MT_ZFS :: "32 word"
  PARAM_FAILNODE :: string
  progname :: string
  add_param :: "string \<Rightarrow> string \<Rightarrow> string \<Rightarrow> int \<times> string"
  strscat :: "string \<Rightarrow> string \<Rightarrow> nat \<Rightarrow> string option"

text \<open>
  Modelled from the spec: \<^verbatim>\<open>add_param\<close> of \<^verbatim>\<open>mount_utils.c\<close> is not among the
  sources. The spec has the bulk read "append \<^verbatim>\<open>unprefixed-key=value \<close> to the
  accumulating parameter blob"; the key arrives with its \<^verbatim>\<open>=\<close>.
\<close>

definition add_param_spec :: "string \<Rightarrow> string \<Rightarrow> string \<Rightarrow> int \<times> string" where
  "add_param_spec buf key val = (0, buf @ key @ val @ '' '')"

text \<open>
  Modelled from the spec: \<^verbatim>\<open>fatal\<close>, \<^verbatim>\<open>run_command\<close> and \<^verbatim>\<open>file_create\<close> of
  \<^verbatim>\<open>mount_utils.c\<close> are not among the sources. The spec has diagnostics "optionally
  preceded by a fatal marker hook", and commands "executed via a generic command-runner
  collaborator" whose "non-zero exit" is "propagated as its reported code". A diagnostic
  \<open>Msg f\<close> is an \<^verbatim>\<open>fprintf(stderr, f, ...)\<close>, recorded by its format without the
  newline at its end.
\<close>

definition fatal :: "world \<Rightarrow> world" where
  "fatal w = w\<lparr>stderr := stderr w @ [Fatal]\<rparr>"

definition eprintf :: "string \<Rightarrow> world \<Rightarrow> world" where
  "eprintf f w = w\<lparr>stderr := stderr w @ [Msg f]\<rparr>"

definition run_command :: "string \<Rightarrow> world \<Rightarrow> int \<times> world" where
  "run_command cmd w =
     (command_status w cmd, w\<lparr>trace := trace w @ [EvRunCommand cmd (command_status w cmd)]\<rparr>)"

definition file_create :: "string \<Rightarrow> 64 word \<Rightarrow> world \<Rightarrow> int \<times> world" where
  "file_create path kb w =
     (file_create_err w path kb,
      w\<lparr>trace := trace w @ [EvFileCreate path kb (file_create_err w path kb)]\<rparr>)"

text \<open>\<^verbatim>\<open>malloc\<close> and \<^verbatim>\<open>strdup\<close>: one allocation fewer is left.\<close>

definition alloc :: "world \<Rightarrow> world" where
  "alloc w = w\<lparr>mem_avail := mem_avail w - 1\<rparr>"

text \<open>\<^verbatim>\<open>zfs_destroy\<close>: on 0 the dataset is gone.\<close>

definition zfs_destroy :: "zfs_handle \<Rightarrow> world \<Rightarrow> int \<times> world" where
  "zfs_destroy zhp w =
     (let e = destroy_err w zhp
      in (e, w\<lparr>datasets := (if e = 0 then AList.delete zhp (datasets w) else datasets w),
                trace := trace w @ [EvDestroy zhp e]\<rparr>))"

subsection \<open>The bridge table\<close>

text \<open>
  An entry of \<^verbatim>\<open>special_ldd_prop_params\<close>: the property name, the field of the disk data
  (the \<^verbatim>\<open>offsetof\<close>) and, by its constructor, the pair of accessors
  (\<^verbatim>\<open>ZLB_INIT(name, field, int)\<close> or \<^verbatim>\<open>ZLB_INIT(name, field, str)\<close>). The list ends
  where the table has its \<^verbatim>\<open>{ NULL }\<close> entry.
\<close>

datatype int_field = OFF_ldd_config_ver | OFF_ldd_flags | OFF_ldd_svindex

datatype str_field =
  OFF_ldd_fsname | OFF_ldd_svname | OFF_ldd_uuid | OFF_ldd_userdata | OFF_ldd_mount_opts

datatype zfs_ldd_prop_bridge = ZLB_int string int_field | ZLB_str string str_field

fun zlpb_prop_name :: "zfs_ldd_prop_bridge \<Rightarrow> string" where
  "zlpb_prop_name (ZLB_int name f) = name"
| "zlpb_prop_name (ZLB_str name f) = name"

fun ldd_int :: "int_field \<Rightarrow> lustre_disk_data \<Rightarrow> 32 word" where
  "ldd_int OFF_ldd_config_ver ldd = ldd_config_ver ldd"
| "ldd_int OFF_ldd_flags ldd = ldd_flags ldd"
| "ldd_int OFF_ldd_svindex ldd = ldd_svindex ldd"

fun ldd_int_store :: "int_field \<Rightarrow> 32 word \<Rightarrow> lustre_disk_data \<Rightarrow> lustre_disk_data" where
  "ldd_int_store OFF_ldd_config_ver v ldd = ldd\<lparr>ldd_config_ver := v\<rparr>"
| "ldd_int_store OFF_ldd_flags v ldd = ldd\<lparr>ldd_flags := v\<rparr>"
| "ldd_int_store OFF_ldd_svindex v ldd = ldd\<lparr>ldd_svindex := v\<rparr>"

fun ldd_str :: "str_field \<Rightarrow> lustre_disk_data \<Rightarrow> string" where
  "ldd_str OFF_ldd_fsname ldd = ldd_fsname ldd"
| "ldd_str OFF_ldd_svname ldd = ldd_svname ldd"
| "ldd_str OFF_ldd_uuid ldd = ldd_uuid ldd"
| "ldd_str OFF_ldd_userdata ldd = ldd_userdata ldd"
| "ldd_str OFF_ldd_mount_opts ldd = ldd_mount_opts ldd"

fun ldd_str_store :: "str_field \<Rightarrow> string \<Rightarrow> lustre_disk_data \<Rightarrow> lustre_disk_data" where
  "ldd_str_store OFF_ldd_fsname v ldd = ldd\<lparr>ldd_fsname := v\<rparr>"
| "ldd_str_store OFF_ldd_svname v ldd = ldd\<lparr>ldd_svname := v\<rparr>"
| "ldd_str_store OFF_ldd_uuid v ldd = ldd\<lparr>ldd_uuid := v\<rparr>"
| "ldd_str_store OFF_ldd_userdata v ldd = ldd\<lparr>ldd_userdata := v\<rparr>"
| "ldd_str_store OFF_ldd_mount_opts v ldd = ldd\<lparr>ldd_mount_opts := v\<rparr>"

definition LDD_VERSION_PROP :: string where "LDD_VERSION_PROP = LDD_PREFIX @ ''version''"
definition LDD_FLAGS_PROP :: string where "LDD_FLAGS_PROP = LDD_PREFIX @ ''flags''"
definition LDD_INDEX_PROP :: string where "LDD_INDEX_PROP = LDD_PREFIX @ ''index''"
definition LDD_FSNAME_PROP :: string where "LDD_FSNAME_PROP = LDD_PREFIX @ ''fsname''"
definition LDD_SVNAME_PROP :: string where "LDD_SVNAME_PROP = LDD_PREFIX @ ''svname''"
definition LDD_UUID_PROP :: string where "LDD_UUID_PROP = LDD_PREFIX @ ''uuid''"
definition LDD_USERDATA_PROP :: string where "LDD_USERDATA_PROP = LDD_PREFIX @ ''userdata''"
definition LDD_MOUNTOPTS_PROP :: string where "LDD_MOUNTOPTS_PROP = LDD_PREFIX @ ''mountopts''"

definition special_ldd_prop_params :: "zfs_ldd_prop_bridge list" where
  "special_ldd_prop_params =
     [ZLB_int LDD_VERSION_PROP OFF_ldd_config_ver,
      ZLB_int LDD_FLAGS_PROP OFF_ldd_flags,
      ZLB_int LDD_INDEX_PROP OFF_ldd_svindex,
      ZLB_str LDD_FSNAME_PROP OFF_ldd_fsname,
      ZLB_str LDD_SVNAME_PROP OFF_ldd_svname,
      ZLB_str LDD_UUID_PROP OFF_ldd_uuid,
      ZLB_str LDD_USERDATA_PROP OFF_ldd_userdata,
      ZLB_str LDD_MOUNTOPTS_PROP OFF_ldd_mount_opts]"

text \<open>
  \<^verbatim>\<open>bridge->zlpb_set_prop_fn(zhp, bridge->zlpb_prop_name, (void *)ldd + bridge->zlpb_ldd_offset)\<close>
  and its reading counterpart. A string field is an array inside the record, so its address
  is never NULL.
\<close>

fun zlpb_set_prop_fn ::
  "zfs_ldd_prop_bridge \<Rightarrow> zfs_handle \<Rightarrow> lustre_disk_data \<Rightarrow> world \<Rightarrow> int \<times> world" where
  "zlpb_set_prop_fn (ZLB_int name f) zhp ldd w = zfs_set_prop_int zhp name (ldd_int f ldd) w"
| "zlpb_set_prop_fn (ZLB_str name f) zhp ldd w =
     zfs_set_prop_str zhp name (Some (ldd_str f ldd)) w"

fun zlpb_get_prop_fn ::
  "zfs_ldd_prop_bridge \<Rightarrow> zfs_handle \<Rightarrow> lustre_disk_data \<Rightarrow> world \<Rightarrow> int \<times> lustre_disk_data"
  where
  "zlpb_get_prop_fn (ZLB_int name f) zhp ldd w =
     (let (ret, v) = zfs_get_prop_int zhp name (ldd_int f ldd) w in (ret, ldd_int_store f v ldd))"
| "zlpb_get_prop_fn (ZLB_str name f) zhp ldd w =
     (let (ret, v) = zfs_get_prop_str zhp name (ldd_str f ldd) w in (ret, ldd_str_store f v ldd))"

subsection \<open>The bulk parameter codec, write direction\<close>

text \<open>
  The \<^verbatim>\<open>while (token)\<close> loop of \<^verbatim>\<open>zfs_set_prop_params\<close>. Its state is \<open>token\<close>
  (\<open>None\<close>: NULL), the string at \<open>save_token\<close>, \<open>ret\<close> and the world. A
  \<^verbatim>\<open>continue\<close> goes back to the test with the same \<open>token\<close> pointer, whose string is
  then what \<^verbatim>\<open>strtok\<close> left of it; only the last statement of the body moves \<open>token\<close>
  on. The loop may not end, so the result is an option: \<open>None\<close> when it never returns.
\<close>

partial_function (option) zfs_set_prop_params_loop ::
  "zfs_handle \<Rightarrow> string option \<Rightarrow> string \<Rightarrow> int \<Rightarrow> world \<Rightarrow> (int \<times> world) option" where
  "zfs_set_prop_params_loop zhp token save_token ret w =
     (case token of
        None \<Rightarrow> Some (ret, w)
      | Some tok \<Rightarrow>
          (case strtok_r tok ''='' of
             None \<Rightarrow> zfs_set_prop_params_loop zhp (Some tok) save_token ret w
           | Some (key, rest) \<Rightarrow>
               (case strtok_r rest ''='' of
                  None \<Rightarrow>
                    zfs_set_prop_params_loop zhp (Some (strtok_buf tok ''='')) save_token ret w
                | Some (val, rest') \<Rightarrow>
                    (case zfs_prop_set zhp (LDD_PREFIX @ key) val w of
                       (ret', w') \<Rightarrow>
                         if ret' \<noteq> 0 then Some (ret', w')
                         else (case strtok_r save_token '' '' of
                                 None \<Rightarrow> zfs_set_prop_params_loop zhp None [] ret' w'
                               | Some (tok', save') \<Rightarrow>
                                   zfs_set_prop_params_loop zhp (Some tok') save' ret' w')))))"

definition zfs_set_prop_params :: "zfs_handle \<Rightarrow> string \<Rightarrow> world \<Rightarrow> (int \<times> world) option" where
  "zfs_set_prop_params zhp params w =
     (if mem_avail w = 0 then Some (ENOMEM, w)
      else (case strtok_r params '' '' of
              None \<Rightarrow> zfs_set_prop_params_loop zhp None [] 0 (alloc w)
            | Some (tok, save) \<Rightarrow> zfs_set_prop_params_loop zhp (Some tok) save 0 (alloc w)))"

subsection \<open>The host-id check\<close>

definition HOSTID_PATH :: string where "HOSTID_PATH = ''/etc/hostid''"

definition SPL_HOSTID_PATH :: string where
  "SPL_HOSTID_PATH = ''/sys/module/spl/parameters/spl_hostid''"

text \<open>
  \<^verbatim>\<open>fread(&hostid, sizeof(uint32_t), 1, f)\<close> into the \<^verbatim>\<open>unsigned long\<close> that is 0 at
  this point: with one item read the host id is the four bytes (on a little-endian
  machine), otherwise the code sets it to 0 after its message.
\<close>

definition hostid_of_file :: "hostid_file \<Rightarrow> 64 word" where
  "hostid_of_file f =
     (case f of HostidNoOpen \<Rightarrow> 0 | HostidRead rc v \<Rightarrow> if rc \<noteq> 1 then 0 else ucast v)"

text \<open>The label \<^verbatim>\<open>out:\<close> of \<^verbatim>\<open>zfs_check_hostid\<close>.\<close>

definition zfs_check_hostid_out ::
  "mount_utils \<Rightarrow> mkfs_opts \<Rightarrow> 64 word \<Rightarrow> world \<Rightarrow> int \<times> world" where
  "zfs_check_hostid_out h mop hostid w =
     (if hostid = 0
      then (if mo_flags mop AND MO_NOHOSTID_CHECK h \<noteq> 0
            then (0, eprintf ''WARNING: spl_hostid not set. ZFS has no zpool import protection'' w)
            else (EINVAL, eprintf ''spl_hostid not set. See %s(8)'' (fatal w)))
      else (0, w))"

definition zfs_check_hostid :: "mount_utils \<Rightarrow> mkfs_opts \<Rightarrow> world \<Rightarrow> int \<times> world" where
  "zfs_check_hostid h mop w =
     (if \<not> strstr (ldd_params (mo_ldd mop)) (PARAM_FAILNODE h) then (0, w)
      else
        let w1 = w\<lparr>trace := trace w @ [EvFopen SPL_HOSTID_PATH]\<rparr> in
        (case spl_hostid w of
           SplNoOpen e \<Rightarrow> (e, eprintf ''Failed to open spl_hostid: %s'' (fatal w1))
         | SplScan rc hostid \<Rightarrow>
             if rc \<noteq> 1 then (rc, eprintf ''Failed to read spl_hostid: %d'' (fatal w1))
             else if hostid \<noteq> 0 then (0, w1)
             else
               let w2 = w1\<lparr>trace := trace w1 @ [EvFopen HOSTID_PATH]\<rparr> in
               (case etc_hostid w of
                  HostidNoOpen \<Rightarrow> zfs_check_hostid_out h mop 0 w2
                | HostidRead rc' v \<Rightarrow>
                    if rc' \<noteq> 1
                    then zfs_check_hostid_out h mop 0
                           (eprintf ''Failed to read /etc/hostid: %d'' w2)
                    else zfs_check_hostid_out h mop (ucast v) w2)))"

subsection \<open>Writing the disk data\<close>

definition osd_check_zfs_setup :: "world \<Rightarrow> int \<times> world" where
  "osd_check_zfs_setup w =
     ((if osd_zfs_setup w = 1 then 1 else 0),
      (if osd_zfs_setup w = 0
       then eprintf (''Failed to initialize ZFS library. Are the ZFS '' @
                     ''packages and modules correctly installed?'') (fatal w)
       else w))"

text \<open>
  The \<^verbatim>\<open>for\<close> loop over the table in \<^verbatim>\<open>zfs_write_ldd\<close>: \<open>Some ret\<close> when it leaves
  by \<^verbatim>\<open>goto out_close\<close>, \<open>None\<close> when it reaches the end of the table.
\<close>

fun write_bridge ::
  "zfs_handle \<Rightarrow> zfs_ldd_prop_bridge list \<Rightarrow> lustre_disk_data \<Rightarrow> world \<Rightarrow> int option \<times> world"
  where
  "write_bridge zhp [] ldd w = (None, w)"
| "write_bridge zhp (bridge # bs) ldd w =
     (case zlpb_set_prop_fn bridge zhp ldd w of
        (ret, w') \<Rightarrow> if ret \<noteq> 0 then (Some ret, w') else write_bridge zhp bs ldd w')"

definition zfs_write_ldd :: "mount_utils \<Rightarrow> mkfs_opts \<Rightarrow> world \<Rightarrow> (int \<times> world) option" where
  "zfs_write_ldd h mop w =
     (let ldd = mo_ldd mop; ds = mo_device mop in
      case osd_check_zfs_setup w of
        (ok, w0) \<Rightarrow>
          if ok = 0 then Some (EINVAL, w0)
          else
            (case zfs_open ds ZFS_TYPE_FILESYSTEM w0 of
               (None, w1) \<Rightarrow> Some (EINVAL, eprintf ''Failed to open zfs dataset %s'' w1)
             | (Some zhp, w1) \<Rightarrow>
                 (case zfs_check_hostid h mop w1 of
                    (ret, w2) \<Rightarrow>
                      if ret \<noteq> 0 then Some (ret, w2)
                      else
                        (case write_bridge zhp special_ldd_prop_params ldd w2 of
                           (Some ret', w3) \<Rightarrow> Some (ret', zfs_close zhp w3)
                         | (None, w3) \<Rightarrow>
                             (case zfs_set_prop_params zhp (ldd_params ldd) w3 of
                                None \<Rightarrow> None
                              | Some (ret', w4) \<Rightarrow> Some (ret', zfs_close zhp w4))))))"

subsection \<open>The bulk parameter codec, read direction\<close>

definition zfs_is_special_ldd_prop_param :: "string \<Rightarrow> bool" where
  "zfs_is_special_ldd_prop_param name =
     (name \<in> set (map zlpb_prop_name special_ldd_prop_params))"

text \<open>
  The \<^verbatim>\<open>while (nvp = nvlist_next_nvpair(props, nvp), nvp)\<close> loop over the names of the
  pairs still to come; \<open>val\<close> is the scratch buffer. The result is \<open>ret\<close> and the
  parameter buffer.
\<close>

fun zfs_get_prop_params_loop ::
  "mount_utils \<Rightarrow> zfs_handle \<Rightarrow> world \<Rightarrow> string list \<Rightarrow> string \<Rightarrow> int \<Rightarrow> string \<Rightarrow> int \<times> string"
  where
  "zfs_get_prop_params_loop h zhp w [] val ret param = (ret, param)"
| "zfs_get_prop_params_loop h zhp w (name # nvps) val ret param =
     (case zfs_get_prop_str zhp name val w of
        (ret1, val1) \<Rightarrow>
          if ret1 \<noteq> 0 then (ret1, param)
          else if \<not> strncmp_eq name LDD_PREFIX
          then zfs_get_prop_params_loop h zhp w nvps val1 ret1 param
          else if zfs_is_special_ldd_prop_param name
          then zfs_get_prop_params_loop h zhp w nvps val1 ret1 param
          else
            (case add_param h param (drop (length LDD_PREFIX) name @ ''='') val1 of
               (ret2, param2) \<Rightarrow>
                 if ret2 \<noteq> 0 then (ret2, param2)
                 else zfs_get_prop_params_loop h zhp w nvps val1 ret2 param2))"

definition zfs_get_prop_params ::
  "mount_utils \<Rightarrow> zfs_handle \<Rightarrow> string \<Rightarrow> nat \<Rightarrow> world \<Rightarrow> int \<times> string \<times> world" where
  "zfs_get_prop_params h zhp param len w =
     (case zfs_get_user_props zhp w of
        None \<Rightarrow> (ENOENT, param, w)
      | Some props \<Rightarrow>
          if mem_avail w = 0 then (ENOMEM, param, w)
          else
            (case zfs_get_prop_params_loop h zhp (alloc w) (map fst props) [] 0 param of
               (ret, param') \<Rightarrow> (ret, param', alloc w)))"

subsection \<open>Reading the disk data\<close>

text \<open>
  The \<^verbatim>\<open>for\<close> loop over the table in \<^verbatim>\<open>zfs_read_ldd\<close>: \<open>Some ret\<close> when it leaves by
  \<^verbatim>\<open>goto out_close\<close>, \<open>None\<close> when it reaches the end of the table.
\<close>

fun read_bridge ::
  "zfs_handle \<Rightarrow> zfs_ldd_prop_bridge list \<Rightarrow> lustre_disk_data \<Rightarrow> world
     \<Rightarrow> int option \<times> lustre_disk_data" where
  "read_bridge zhp [] ldd w = (None, ldd)"
| "read_bridge zhp (bridge # bs) ldd w =
     (case zlpb_get_prop_fn bridge zhp ldd w of
        (ret, ldd') \<Rightarrow>
          if ret \<noteq> 0 \<and> ret \<noteq> ENOENT then (Some ret, ldd') else read_bridge zhp bs ldd' w)"

text \<open>
  \<^verbatim>\<open>zfs_read_ldd\<close> between the open and the label \<^verbatim>\<open>out_close:\<close>: the table, the bulk
  read into \<^verbatim>\<open>ldd->ldd_params\<close>, the mount type.
\<close>

definition zfs_read_ldd_props ::
  "mount_utils \<Rightarrow> zfs_handle \<Rightarrow> lustre_disk_data \<Rightarrow> world \<Rightarrow> int \<times> lustre_disk_data \<times> world"
  where
  "zfs_read_ldd_props h zhp ldd w =
     (case read_bridge zhp special_ldd_prop_params ldd w of
        (Some ret, ldd1) \<Rightarrow> (ret, ldd1, w)
      | (None, ldd1) \<Rightarrow>
          (case zfs_get_prop_params h zhp (ldd_params ldd1) 4096 w of
             (ret, params, w1) \<Rightarrow>
               let ldd2 = ldd1\<lparr>ldd_params := params\<rparr> in
               if ret \<noteq> 0 \<and> ret \<noteq> ENOENT then (ret, ldd2, w1)
               else (0, ldd2\<lparr>ldd_mount_type := LDD_MT_ZFS h\<rparr>, w1)))"

definition zfs_read_ldd ::
  "mount_utils \<Rightarrow> string \<Rightarrow> lustre_disk_data \<Rightarrow> world \<Rightarrow> int \<times> lustre_disk_data \<times> world"
  where
  "zfs_read_ldd h ds ldd w =
     (case osd_check_zfs_setup w of
        (ok, w0) \<Rightarrow>
          if ok = 0 then (EINVAL, ldd, w0)
          else
            (case zfs_open ds ZFS_TYPE_FILESYSTEM w0 of
               (Some zhp, w1) \<Rightarrow>
                 (case zfs_read_ldd_props h zhp ldd w1 of
                    (ret, ldd', w2) \<Rightarrow> (ret, ldd', zfs_close zhp w2))
             | (None, w1) \<Rightarrow>
                 (case zfs_open ds ZFS_TYPE_SNAPSHOT w1 of
                    (Some zhp, w2) \<Rightarrow>
                      (case zfs_read_ldd_props h zhp ldd w2 of
                         (ret, ldd', w3) \<Rightarrow> (ret, ldd', zfs_close zhp w3))
                  | (None, w2) \<Rightarrow> (EINVAL, ldd, w2))))"

text \<open>
  \<^verbatim>\<open>zfs_is_lustre\<close>. The scratch record \<^verbatim>\<open>tmp_ldd\<close> is an automatic variable without
  an initialiser: what it holds when the function starts is the parameter \<open>tmp_ldd\<close>.
  \<open>mount_type\<close> is what the caller's variable holds; the result is the return value,
  that variable and the world. \<^verbatim>\<open>ldd_config_ver\<close> is compared as the \<^verbatim>\<open>__u32\<close> the
  reader stores.
\<close>

definition zfs_is_lustre ::
  "mount_utils \<Rightarrow> string \<Rightarrow> lustre_disk_data \<Rightarrow> 32 word \<Rightarrow> world \<Rightarrow> int \<times> 32 word \<times> world"
  where
  "zfs_is_lustre h ds tmp_ldd mount_type w =
     (if osd_zfs_setup w = 0 then (0, mount_type, w)
      else
        (case zfs_read_ldd h ds tmp_ldd w of
           (ret, tmp_ldd', w') \<Rightarrow>
             if ret = 0 \<and> 0 < ldd_config_ver tmp_ldd' \<and> 0 < length (ldd_svname tmp_ldd')
             then (1, ldd_mount_type tmp_ldd', w')
             else (0, mount_type, w')))"

subsection \<open>Provisioning\<close>

text \<open>\<^verbatim>\<open>snprintf(str, len, ...)\<close> keeps at most \<open>len - 1\<close> characters.\<close>

definition snprintf :: "nat \<Rightarrow> string \<Rightarrow> string" where
  "snprintf len s = take (len - 1) s"

definition zfs_mkfs_opts :: "mkfs_opts \<Rightarrow> nat \<Rightarrow> string" where
  "zfs_mkfs_opts mop len =
     (if length (mo_mkfsopts mop) \<noteq> 0 then snprintf len ('' -o '' @ mo_mkfsopts mop) else [])"

text \<open>\<^verbatim>\<open>access(vdev, F_OK)\<close> is 0 where \<open>access_err\<close> is 0, else \<^verbatim>\<open>errno\<close> is its value.\<close>

definition zfs_create_vdev :: "mkfs_opts \<Rightarrow> string \<Rightarrow> world \<Rightarrow> int \<times> world" where
  "zfs_create_vdev mop vdev w =
     (if strncmp_eq vdev ''disk'' \<or> strncmp_eq vdev ''file'' \<or> strncmp_eq vdev ''mirror'' \<or>
         strncmp_eq vdev ''raidz'' \<or> strncmp_eq vdev ''spare'' \<or> strncmp_eq vdev ''log'' \<or>
         strncmp_eq vdev ''cache''
      then (0, w)
      else if take 1 vdev = ''/''
      then
        (if access_err w vdev = 0 then (0, w)
         else if access_err w vdev \<noteq> ENOENT
         then (access_err w vdev,
               eprintf ''Unable to access required vdev for pool %s (%d)'' (fatal w))
         else if mo_device_kb mop = 0
         then (EINVAL,
               eprintf ''Unable to create vdev due to missing --device-size=#N(KB) parameter''
                 (fatal w))
         else
           (case file_create vdev (mo_device_kb mop) w of
              (ret, w1) \<Rightarrow>
                if ret \<noteq> 0 then (ret, eprintf ''Unable to create vdev %s (%d)'' (fatal w1))
                else (ret, w1)))
      else (0, w))"

text \<open>
  The \<^verbatim>\<open>while (*mop->mo_pool_vdevs != NULL)\<close> loop of \<^verbatim>\<open>zfs_make_lustre\<close>: the vdevs
  still to come, the command built so far. The result is \<open>ret\<close>, where
  \<^verbatim>\<open>mop->mo_pool_vdevs\<close> points afterwards, the command and the world.
\<close>

fun make_lustre_vdevs ::
  "mount_utils \<Rightarrow> mkfs_opts \<Rightarrow> string list \<Rightarrow> string \<Rightarrow> int \<Rightarrow> world
     \<Rightarrow> (int \<times> string list \<times> string \<times> world) option" where
  "make_lustre_vdevs h mop [] mkfs_cmd ret w = Some (ret, [], mkfs_cmd, w)"
| "make_lustre_vdevs h mop (vdev # vdevs) mkfs_cmd ret w =
     (case strscat h mkfs_cmd '' '' PATH_MAX of
        None \<Rightarrow> None
      | Some cmd1 \<Rightarrow>
          (case strscat h cmd1 vdev PATH_MAX of
             None \<Rightarrow> None
           | Some cmd2 \<Rightarrow>
               (case zfs_create_vdev mop vdev w of
                  (ret', w') \<Rightarrow>
                    if ret' \<noteq> 0 then Some (ret', vdev # vdevs, cmd2, w')
                    else make_lustre_vdevs h mop vdevs cmd2 ret' w')))"

text \<open>
  \<^verbatim>\<open>zfs_make_lustre\<close> from the \<^verbatim>\<open>--reformat\<close> test on, the three buffers allocated and
  \<open>pool\<close> cut at its \<^verbatim>\<open>/\<close>: the reformat (\<open>Some ret\<close>: it leaves by \<^verbatim>\<open>goto out\<close>),
  the pool, the filesystem.
\<close>

definition make_lustre_reformat :: "mount_utils \<Rightarrow> mkfs_opts \<Rightarrow> world \<Rightarrow> int option \<times> world"
  where
  "make_lustre_reformat h mop w =
     (if mo_flags mop AND MO_FORCEFORMAT h \<noteq> 0
      then
        (case zfs_open (mo_device mop) ZFS_TYPE_FILESYSTEM w of
           (None, w1) \<Rightarrow> (None, w1)
         | (Some zhp, w1) \<Rightarrow>
             (case zfs_destroy zhp w1 of
                (ret, w2) \<Rightarrow>
                  if ret \<noteq> 0
                  then (Some ret, eprintf ''Failed destroy zfs dataset %s (%d)'' (zfs_close zhp w2))
                  else (None, zfs_close zhp w2)))
      else (None, w))"

definition make_lustre_fs :: "mkfs_opts \<Rightarrow> world \<Rightarrow> int \<times> world" where
  "make_lustre_fs mop w =
     (case run_command
             (snprintf PATH_MAX (''zfs create -o canmount=off -o xattr=sa'' @
                zfs_mkfs_opts mop PATH_MAX @ '' '' @ mo_device mop)) w of
        (ret, w1) \<Rightarrow>
          if ret \<noteq> 0 then (ret, eprintf ''Unable to create filesystem %s (%d)'' (fatal w1))
          else (ret, w1))"

definition make_lustre_pool ::
  "mount_utils \<Rightarrow> mkfs_opts \<Rightarrow> string \<Rightarrow> world \<Rightarrow> (int \<times> mkfs_opts \<times> world) option" where
  "make_lustre_pool h mop pool w =
     (case mo_pool_vdevs mop of
        None \<Rightarrow> (case make_lustre_fs mop w of (ret, w1) \<Rightarrow> Some (ret, mop, w1))
      | Some vdevs \<Rightarrow>
          if pool \<in> set (pools w)
          then (case make_lustre_fs mop w of (ret, w1) \<Rightarrow> Some (ret, mop, w1))
          else
            (case make_lustre_vdevs h mop vdevs
                    (snprintf PATH_MAX (''zpool create -f -O canmount=off '' @ pool)) 0 w of
               None \<Rightarrow> None
             | Some (ret, vdevs', mkfs_cmd, w1) \<Rightarrow>
                 if ret \<noteq> 0 then Some (ret, mop\<lparr>mo_pool_vdevs := Some vdevs'\<rparr>, w1)
                 else
                   (case run_command mkfs_cmd w1 of
                      (ret', w2) \<Rightarrow>
                        if ret' \<noteq> 0
                        then Some (ret', mop\<lparr>mo_pool_vdevs := Some vdevs'\<rparr>,
                                   eprintf ''Unable to create pool %s (%d)'' (fatal w2))
                        else
                          (case make_lustre_fs (mop\<lparr>mo_pool_vdevs := Some vdevs'\<rparr>) w2 of
                             (ret'', w3) \<Rightarrow>
                               Some (ret'', mop\<lparr>mo_pool_vdevs := Some vdevs'\<rparr>, w3)))))"

text \<open>
  The result is the return value, \<^verbatim>\<open>*mop\<close> afterwards and the world; \<open>None\<close> when the
  call does not return: \<^verbatim>\<open>strchr(pool, '/')\<close> is NULL and is written through, or
  \<^verbatim>\<open>strscat\<close> does not return.
\<close>

definition zfs_make_lustre ::
  "mount_utils \<Rightarrow> mkfs_opts \<Rightarrow> world \<Rightarrow> (int \<times> mkfs_opts \<times> world) option" where
  "zfs_make_lustre h mop w =
     (let ds = mo_device mop in
      case osd_check_zfs_setup w of
        (ok, w0) \<Rightarrow>
          if ok = 0 then Some (EINVAL, mop, w0)
          else if ldd_flags (mo_ldd mop) AND LDD_F_NEED_INDEX h \<noteq> 0
          then Some (EINVAL, mop,
                     eprintf ''The target index must be specified with --index'' (fatal w0))
          else
            (case zfs_check_hostid h mop w0 of
               (ret, w1) \<Rightarrow>
                 if ret \<noteq> 0 then Some (ret, mop, w1)
                 else if mem_avail w1 = 0 then Some (ENOMEM, mop, w1)
                 else if mem_avail (alloc w1) = 0 then Some (ENOMEM, mop, alloc w1)
                 else if mem_avail (alloc (alloc w1)) = 0
                 then Some (ENOMEM, mop, alloc (alloc w1))
                 else if CHR ''/'' \<notin> set ds then None
                 else
                   (case make_lustre_reformat h mop (alloc (alloc (alloc w1))) of
                      (Some ret', w2) \<Rightarrow> Some (ret', mop, w2)
                    | (None, w2) \<Rightarrow>
                        make_lustre_pool h mop (takeWhile (\<lambda>c. c \<noteq> CHR ''/'') ds) w2)))"

definition zfs_enable_quota :: "mkfs_opts \<Rightarrow> world \<Rightarrow> int \<times> world" where
  "zfs_enable_quota mop w = (ENOSYS, eprintf ''this option is not only valid for zfs'' w)"

definition zfs_prepare_lustre :: "mkfs_opts \<Rightarrow> string \<Rightarrow> nat \<Rightarrow> world \<Rightarrow> int \<times> world" where
  "zfs_prepare_lustre mop wanted_mountopts len w =
     (case osd_check_zfs_setup w of
        (ok, w0) \<Rightarrow>
          if ok = 0 then (EINVAL, w0)
          else if \<not> name_valid w0 (mo_device mop)
          then (EINVAL, eprintf ''Invalid filesystem name %s'' (fatal w0))
          else if CHR ''/'' \<notin> set (mo_device mop)
          then (EINVAL, eprintf ''Missing pool in filesystem name %s'' (fatal w0))
          else (0, w0))"

definition zfs_tune_lustre :: "string \<Rightarrow> mount_opts \<Rightarrow> world \<Rightarrow> int \<times> world" where
  "zfs_tune_lustre dev mop w =
     (case osd_check_zfs_setup w of (ok, w0) \<Rightarrow> if ok = 0 then (EINVAL, w0) else (0, w0))"

definition zfs_label_lustre :: "mount_opts \<Rightarrow> world \<Rightarrow> int \<times> world" where
  "zfs_label_lustre mop w =
     (case osd_check_zfs_setup w of
        (ok, w0) \<Rightarrow>
          if ok = 0 then (EINVAL, w0)
          else
            (case zfs_open (mo_source mop) ZFS_TYPE_FILESYSTEM w0 of
               (None, w1) \<Rightarrow> (EINVAL, w1)
             | (Some zhp, w1) \<Rightarrow>
                 (case zfs_set_prop_str zhp LDD_SVNAME_PROP
                         (Some (ldd_svname (mo_ldd_mnt mop))) w1 of
                    (ret, w2) \<Rightarrow> (ret, zfs_close zhp w2))))"

subsection \<open>Malformed tokens\<close>

text \<open>
  The tokens at which the loop of \<^verbatim>\<open>zfs_set_prop_params\<close> takes one of its two
  \<^verbatim>\<open>continue\<close> statements: \<^verbatim>\<open>key == NULL\<close> or \<^verbatim>\<open>value == NULL\<close>.
\<close>

definition malformed :: "string \<Rightarrow> bool" where
  "malformed tok =
     (case strtok_r tok ''='' of
        None \<Rightarrow> True
      | Some (key, rest) \<Rightarrow> strtok_r rest ''='' = None)"

subsection \<open>Example values\<close>

text \<open>
  A header, a world and option records to run the functions on: the library is ready, the
  pool holds the filesystem \<^verbatim>\<open>pool/ost0\<close> without user properties, the snapshot
  \<^verbatim>\<open>pool/ost0@backup\<close> with some and the filesystem \<^verbatim>\<open>pool/odd\<close> whose version
  does not fit an \<^verbatim>\<open>unsigned long\<close>, both host-id sources give 0, and every call to
  the outside succeeds.
\<close>

definition example_hdr :: mount_utils where
  "example_hdr =
     \<lparr>MO_NOHOSTID_CHECK = 0x100, MO_FORCEFORMAT = 0x02, LDD_F_NEED_INDEX = 0x10,
      LDD_MT_ZFS = 4, PARAM_FAILNODE = ''failnode='', progname = ''mkfs.lustre'',
      add_param = add_param_spec,
      strscat = (\<lambda>dst src buflen.
                   if buflen \<le> length dst + length src then None else Some (dst @ src))\<rparr>"

definition example_world :: world where
  "example_world =
     \<lparr>osd_zfs_setup = 1,
      datasets =
        [(''pool/ost0'', \<lparr>ds_type = ZFS_TYPE_FILESYSTEM, ds_props = Some []\<rparr>),
         (''pool/ost0@backup'',
          \<lparr>ds_type = ZFS_TYPE_SNAPSHOT,
           ds_props = Some [(''lustre:version'', Some ''1''),
                            (''lustre:svname'', Some ''lustre-OST0000''),
                            (''lustre:opt1'', Some ''a'')]\<rparr>),
         (''pool/odd'',
          \<lparr>ds_type = ZFS_TYPE_FILESYSTEM,
           ds_props = Some [(''lustre:version'', Some ''99999999999999999999'')]\<rparr>)],
      pools = [''pool''],
      open_handles = [],
      mem_avail = 8,
      spl_hostid = SplScan 1 0,
      etc_hostid = HostidNoOpen,
      prop_set_err = (\<lambda>ds pname v. 0),
      destroy_err = (\<lambda>ds. 0),
      name_valid = (\<lambda>name. True),
      access_err = (\<lambda>path. 0),
      file_create_err = (\<lambda>path kb. 0),
      command_status = (\<lambda>cmd. 0),
      trace = [],
      stderr = []\<rparr>"

definition example_ldd :: lustre_disk_data where
  "example_ldd =
     \<lparr>ldd_config_ver = 1, ldd_flags = 0x62, ldd_svindex = 0, ldd_mount_type = 0,
      ldd_fsname = ''lustre'', ldd_svname = ''lustre-OST0000'', ldd_uuid = [],
      ldd_userdata = [], ldd_mount_opts = [], ldd_params = []\<rparr>"

definition example_mop :: mkfs_opts where
  "example_mop =
     \<lparr>mo_ldd = example_ldd, mo_device = ''pool/ost0'', mo_mkfsopts = [],
      mo_pool_vdevs = None, mo_device_kb = 0, mo_flags = 0\<rparr>"

definition example_mnt :: mount_opts where
  "example_mnt = \<lparr>mo_ldd_mnt = example_ldd, mo_source = ''pool/ost0''\<rparr>"

text \<open>What the stack may hold where \<^verbatim>\<open>zfs_is_lustre\<close> gets its scratch record.\<close>

definition stale_ldd :: lustre_disk_data where
  "stale_ldd =
     \<lparr>ldd_config_ver = 1, ldd_flags = 0, ldd_svindex = 0, ldd_mount_type = 0,
      ldd_fsname = [], ldd_svname = ''x'', ldd_uuid = [],
      ldd_userdata = [], ldd_mount_opts = [], ldd_params = []\<rparr>"

text \<open>
  The options of a target with a failover node, without and with the flag that skips the
  host-id check, and the world before \<^verbatim>\<open>zfs_init\<close> has run.
\<close>

definition failnode_mop :: mkfs_opts where
  "failnode_mop = example_mop\<lparr>mo_ldd := example_ldd\<lparr>ldd_params := ''failnode=1''\<rparr>\<rparr>"

definition failnode_mop_nocheck :: mkfs_opts where
  "failnode_mop_nocheck = failnode_mop\<lparr>mo_flags := 0x100\<rparr>"

definition not_ready_world :: world where
  "not_ready_world = example_world\<lparr>osd_zfs_setup := 0\<rparr>"

section \<open>Properties\<close>

subsection \<open>Decimal output read back\<close>

lemma lt10_cases:
  "(d::nat) < 10 \<Longrightarrow>
   d = 0 \<or> d = 1 \<or> d = 2 \<or> d = 3 \<or> d = 4 \<or> d = 5 \<or> d = 6 \<or> d = 7 \<or> d = 8 \<or> d = 9"
  by arith

lemma digit_of_digit_char: "d < 10 \<Longrightarrow> digit_of (digit_char d) = Some d"
  by (drule lt10_cases) (auto simp add: digit_of_def digit_char_def isdigit_def)

lemma digit_char_not_special:
  "d < 10 \<Longrightarrow>
   \<not> isspace (digit_char d) \<and> digit_char d \<noteq> CHR ''-'' \<and> digit_char d \<noteq> CHR ''+''"
  by (drule lt10_cases) (auto simp add: isspace_def digit_char_def)

lemma digits_small: "n < 10 \<Longrightarrow> digits n = [digit_char n]"
  by (subst digits.simps) simp

lemma digits_large: "\<not> n < 10 \<Longrightarrow> digits n = digits (n div 10) @ [digit_char (n mod 10)]"
  by (subst digits.simps) simp

lemma strtoul_digits_append:
  "strtoul_digits (digits n @ cs) acc = strtoul_digits cs (acc * 10 ^ length (digits n) + n)"
proof (induction n arbitrary: cs acc rule: digits.induct)
  case (1 n)
  show ?case
  proof (cases "n < 10")
    case True
    then show ?thesis
      by (simp add: digits_small digit_of_digit_char)
  next
    case False
    have d: "n mod 10 < 10" by simp
    have "strtoul_digits (digits n @ cs) acc =
          strtoul_digits (digits (n div 10) @ (digit_char (n mod 10) # cs)) acc"
      using False by (simp add: digits_large)
    also have "\<dots> = strtoul_digits (digit_char (n mod 10) # cs)
                      (acc * 10 ^ length (digits (n div 10)) + n div 10)"
      using "1.IH" [OF False] by simp
    also have "\<dots> = strtoul_digits cs
                      ((acc * 10 ^ length (digits (n div 10)) + n div 10) * 10 + n mod 10)"
      by (simp add: digit_of_digit_char [OF d])
    also have "(acc * 10 ^ length (digits (n div 10)) + n div 10) * 10 + n mod 10 =
               acc * 10 ^ length (digits n) + n"
      using False by (simp add: digits_large algebra_simps)
    finally show ?thesis .
  qed
qed

lemma strtoul_digits_digits: "strtoul_digits (digits n) 0 = n"
  using strtoul_digits_append [of n "[]" 0] by simp

lemma digits_starts_with_digit: "\<exists>d cs. digits n = digit_char d # cs \<and> d < 10"
proof (induction n rule: digits.induct)
  case (1 n)
  show ?case
  proof (cases "n < 10")
    case True
    then show ?thesis by (auto simp: digits_small)
  next
    case False
    with "1.IH" obtain d cs where "digits (n div 10) = digit_char d # cs" "d < 10" by blast
    then show ?thesis using False by (auto simp: digits_large)
  qed
qed

lemma strtoul_digits_nat: "n \<le> ULONG_MAX \<Longrightarrow> strtoul (digits n) = (0, of_nat n)"
proof -
  assume le: "n \<le> ULONG_MAX"
  obtain d cs where dc: "digits n = digit_char d # cs" "d < 10"
    using digits_starts_with_digit by blast
  have "strtoul_digits (digit_char d # cs) 0 = n"
    using strtoul_digits_digits [of n] dc by simp
  then show ?thesis
    using le digit_char_not_special [OF dc(2)]
    unfolding strtoul_def dc(1) by (simp add: Let_def)
qed

lemma strtoul_minus_digits:
  "n \<le> ULONG_MAX \<Longrightarrow> strtoul (CHR ''-'' # digits n) = (0, - of_nat n)"
proof -
  assume le: "n \<le> ULONG_MAX"
  have "\<not> isspace (CHR ''-'')" by (simp add: isspace_def)
  then show ?thesis
    using le strtoul_digits_digits [of n]
    unfolding strtoul_def by (simp add: Let_def)
qed

lemma ucast_wi_sint: "(ucast (word_of_int (sint (v :: 32 word)) :: 64 word) :: 32 word) = v"
proof -
  have "is_down (ucast :: 64 word \<Rightarrow> 32 word)"
    by (simp add: is_down)
  then have "(ucast (word_of_int (sint v) :: 64 word) :: 32 word) = word_of_int (sint v)"
    by (rule ucast_down_wi)
  also have "\<dots> = v" by simp
  finally show ?thesis .
qed

lemma ucast_of_nat_sint:
  "0 \<le> sint (v :: 32 word) \<Longrightarrow> (ucast (of_nat (nat (sint v)) :: 64 word) :: 32 word) = v"
proof -
  assume a: "0 \<le> sint v"
  have "(of_nat (nat (sint v)) :: 64 word) = word_of_int (sint v)"
    using a by (simp only: word_of_int_nat)
  then show ?thesis
    by (simp only: ucast_wi_sint)
qed

lemma ucast_neg_of_nat_sint:
  "sint (v :: 32 word) < 0 \<Longrightarrow> (ucast (- (of_nat (nat (- sint v)) :: 64 word)) :: 32 word) = v"
proof -
  assume a: "sint v < 0"
  then have "0 \<le> - sint v" by simp
  then have "(of_nat (nat (- sint v)) :: 64 word) = word_of_int (- sint v)"
    by (simp only: word_of_int_nat)
  also have "- (word_of_int (- sint v) :: 64 word) = word_of_int (sint v)"
    by (simp only: wi_hom_neg minus_minus)
  finally have "- (of_nat (nat (- sint v)) :: 64 word) = word_of_int (sint v)"
    by simp
  then show ?thesis
    by (simp only: ucast_wi_sint)
qed

lemma strtoul_fmt_i:
  "fst (strtoul (fmt_i (sint (v :: 32 word)))) = 0 \<and>
   ucast (snd (strtoul (fmt_i (sint v)))) = v"
proof (cases "sint v < 0")
  case True
  have b: "- (2 ^ 31) \<le> sint v" using sint_ge [of v] by simp
  have le: "nat (- sint v) \<le> ULONG_MAX" using b by (simp add: ULONG_MAX_def)
  show ?thesis
    using True strtoul_minus_digits [OF le] ucast_neg_of_nat_sint [OF True]
    by (simp add: fmt_i_def)
next
  case False
  have b: "sint v < 2 ^ 31" using sint_lt [of v] by simp
  have le: "nat (sint v) \<le> ULONG_MAX" using b by (simp add: ULONG_MAX_def)
  from False have nn: "0 \<le> sint v" by simp
  show ?thesis
    using False strtoul_digits_nat [OF le] ucast_of_nat_sint [OF nn]
    by (simp add: fmt_i_def)
qed

lemma sint_high: "2 ^ 31 \<le> unat (v :: 32 word) \<Longrightarrow> sint v = int (unat v) - 2 ^ 32"
proof -
  assume a: "2 ^ 31 \<le> unat v"
  have "uint v = uint (word_of_int (sint v) :: 32 word)" by simp
  also have "\<dots> = sint v mod 2 ^ 32"
    by (simp only: uint_word_of_int_eq take_bit_eq_mod) simp
  finally have m: "uint v = sint v mod 2 ^ 32" .
  have lo: "- (2 ^ 31) \<le> sint v" using sint_ge [of v] by simp
  have hi: "sint v < 2 ^ 31" using sint_lt [of v] by simp
  have "int (2 ^ 31) \<le> int (unat v)" using a by (simp only: of_nat_le_iff)
  then have u: "2 ^ 31 \<le> uint v" by simp
  have neg: "sint v < 0"
  proof (rule ccontr)
    assume "\<not> sint v < 0"
    then have "sint v mod 2 ^ 32 = sint v" using hi by simp
    with m u hi show False by simp
  qed
  have "sint v mod 2 ^ 32 = (sint v + 2 ^ 32) mod 2 ^ 32" by simp
  also have "\<dots> = sint v + 2 ^ 32"
    using lo neg by (intro mod_pos_pos_trivial) simp_all
  finally show ?thesis using m by simp
qed

subsection \<open>A property written is the property read\<close>

lemma zfs_prop_set_stored:
  assumes "fst (zfs_prop_set zhp pname s w) = 0"
  shows "\<exists>ps. zfs_get_user_props zhp (snd (zfs_prop_set zhp pname s w)) = Some ps \<and>
              map_of ps pname = Some (Some s)"
  using assms
  by (auto simp: zfs_prop_set_def zfs_get_user_props_def Let_def update_conv'
           split: option.splits if_splits)

lemma zfs_prop_set_trace:
  "trace (snd (zfs_prop_set zhp pname s w)) =
   trace w @ [EvPropSet zhp pname s (fst (zfs_prop_set zhp pname s w))]"
  by (auto simp: zfs_prop_set_def Let_def split: option.splits if_splits)

lemma get_str_after_set:
  assumes "fst (zfs_prop_set zhp pname s w) = 0"
  shows "zfs_get_prop_str zhp pname old (snd (zfs_prop_set zhp pname s w)) = (0, s)"
  using zfs_prop_set_stored [OF assms]
  by (auto simp: zfs_get_prop_str_def nvlist_lookup_nvlist_def nvlist_lookup_string_def)

lemma get_int_after_set:
  assumes "fst (zfs_prop_set zhp pname (fmt_i (sint v)) w) = 0"
  shows "zfs_get_prop_int zhp pname old (snd (zfs_prop_set zhp pname (fmt_i (sint v)) w)) = (0, v)"
proof -
  obtain e n where en: "strtoul (fmt_i (sint v)) = (e, n)" by (cases "strtoul (fmt_i (sint v))")
  with strtoul_fmt_i [of v] have "e = 0" "ucast n = v" by simp_all
  with en zfs_prop_set_stored [OF assms] show ?thesis
    by (auto simp: zfs_get_prop_int_def nvlist_lookup_nvlist_def nvlist_lookup_string_def)
qed

text \<open>
  C10. For every 32-bit field value \<open>v\<close>: when \<^verbatim>\<open>zfs_set_prop_int\<close> succeeds,
  \<^verbatim>\<open>zfs_get_prop_int\<close> of the same property on the same dataset succeeds and stores
  \<open>v\<close>, whatever the field held. The one property-store call made carries \<open>v\<close> printed
  as a signed decimal, which for \<open>v\<close> at or above \<open>2^31\<close> is a minus sign and the
  digits of \<open>2^32 - v\<close>.
\<close>

theorem zfs_prop_int_round_trip:
  "fst (zfs_set_prop_int zhp pname v w) = 0 \<Longrightarrow>
   zfs_get_prop_int zhp pname old (snd (zfs_set_prop_int zhp pname v w)) = (0, v) \<and>
   trace (snd (zfs_set_prop_int zhp pname v w)) =
     trace w @ [EvPropSet zhp pname (fmt_i (sint v)) 0] \<and>
   (2 ^ 31 \<le> unat v \<longrightarrow> fmt_i (sint v) = CHR ''-'' # digits (2 ^ 32 - unat v))"
proof -
  assume ok: "fst (zfs_set_prop_int zhp pname v w) = 0"
  then have ok': "fst (zfs_prop_set zhp pname (fmt_i (sint v)) w) = 0"
    by (simp add: zfs_set_prop_int_def)
  have a: "zfs_get_prop_int zhp pname old (snd (zfs_set_prop_int zhp pname v w)) = (0, v)"
    using get_int_after_set [OF ok'] by (simp add: zfs_set_prop_int_def)
  have b: "trace (snd (zfs_set_prop_int zhp pname v w)) =
           trace w @ [EvPropSet zhp pname (fmt_i (sint v)) 0]"
    using zfs_prop_set_trace [of zhp pname "fmt_i (sint v)" w] ok'
    by (simp add: zfs_set_prop_int_def)
  have c: "fmt_i (sint v) = CHR ''-'' # digits (2 ^ 32 - unat v)" if h: "2 ^ 31 \<le> unat v"
  proof -
    define n where "n = unat v"
    have s: "sint v = int n - 2 ^ 32" unfolding n_def by (rule sint_high [OF h])
    have lt: "n < 2 ^ 32" unfolding n_def using unsigned_less [of v] by simp
    from s lt have neg: "sint v < 0" by simp
    from s lt have "nat (- sint v) = 2 ^ 32 - n" by simp
    with neg have "fmt_i (sint v) = CHR ''-'' # digits (2 ^ 32 - n)"
      by (simp add: fmt_i_def)
    then show ?thesis by (simp only: n_def)
  qed
  from a b c show ?thesis by blast
qed

theorem zfs_prop_int_round_trip_witness:
  "fst (zfs_set_prop_int ''pool/ost0'' ''lustre:flags'' 0xFFFFFFFF example_world) = 0 \<and>
   zfs_get_prop_int ''pool/ost0'' ''lustre:flags'' 0
     (snd (zfs_set_prop_int ''pool/ost0'' ''lustre:flags'' 0xFFFFFFFF example_world)) =
     (0, 0xFFFFFFFF) \<and>
   fmt_i (sint (0xFFFFFFFF :: 32 word)) = ''-1''"
proof -
  have h: "fst (zfs_set_prop_int ''pool/ost0'' ''lustre:flags'' 0xFFFFFFFF example_world) = 0"
    by (simp add: zfs_set_prop_int_def zfs_prop_set_def example_world_def)
  have d: "digits 1 = ''1''"
    by (simp add: digits_small digit_char_def)
  from zfs_prop_int_round_trip [OF h, of 0] h d show ?thesis
    by simp
qed

text \<open>
  C9. \<^verbatim>\<open>zfs_set_prop_str\<close> with a NULL or an empty value returns 0 and leaves the
  world as it is: no property-store call is made. Reading a property that the dataset does
  not have, after such a write, returns \<^verbatim>\<open>ENOENT\<close> and leaves the field what it was.
  For a value that is not empty, when the write succeeds, \<^verbatim>\<open>zfs_get_prop_str\<close> of the
  same property succeeds and stores the value written.
\<close>

theorem zfs_prop_str_empty_and_round_trip:
  "zfs_set_prop_str zhp pname None w = (0, w) \<and>
   zfs_set_prop_str zhp pname (Some []) w = (0, w) \<and>
   (zfs_get_user_props zhp w = Some ps \<and> map_of ps pname = None \<longrightarrow>
      zfs_get_prop_str zhp pname old (snd (zfs_set_prop_str zhp pname (Some []) w)) =
        (ENOENT, old)) \<and>
   (s \<noteq> [] \<and> fst (zfs_set_prop_str zhp pname (Some s) w) = 0 \<longrightarrow>
      zfs_get_prop_str zhp pname old (snd (zfs_set_prop_str zhp pname (Some s) w)) = (0, s))"
proof -
  have a: "zfs_set_prop_str zhp pname None w = (0, w)"
    by (simp add: zfs_set_prop_str_def)
  have b: "zfs_set_prop_str zhp pname (Some []) w = (0, w)"
    by (simp add: zfs_set_prop_str_def)
  have c: "zfs_get_prop_str zhp pname old (snd (zfs_set_prop_str zhp pname (Some []) w)) =
           (ENOENT, old)"
    if "zfs_get_user_props zhp w = Some ps" "map_of ps pname = None"
    using that by (simp add: b zfs_get_prop_str_def nvlist_lookup_nvlist_def)
  have d: "zfs_get_prop_str zhp pname old (snd (zfs_set_prop_str zhp pname (Some s) w)) = (0, s)"
    if "s \<noteq> []" "fst (zfs_set_prop_str zhp pname (Some s) w) = 0"
  proof -
    from that(1) have e: "zfs_set_prop_str zhp pname (Some s) w = zfs_prop_set zhp pname s w"
      by (simp add: zfs_set_prop_str_def)
    show ?thesis using that(2) unfolding e by (rule get_str_after_set)
  qed
  from a b c d show ?thesis by blast
qed

theorem zfs_prop_str_empty_and_round_trip_witness:
  "zfs_get_user_props ''pool/ost0'' example_world = Some [] \<and>
   zfs_get_prop_str ''pool/ost0'' ''lustre:uuid'' ''before''
     (snd (zfs_set_prop_str ''pool/ost0'' ''lustre:uuid'' (Some []) example_world)) =
     (ENOENT, ''before'') \<and>
   fst (zfs_set_prop_str ''pool/ost0'' ''lustre:fsname'' (Some ''lustre'') example_world) = 0 \<and>
   zfs_get_prop_str ''pool/ost0'' ''lustre:fsname'' ''before''
     (snd (zfs_set_prop_str ''pool/ost0'' ''lustre:fsname'' (Some ''lustre'') example_world)) =
     (0, ''lustre'')"
proof -
  have p: "zfs_get_user_props ''pool/ost0'' example_world = Some []"
    by (simp add: zfs_get_user_props_def example_world_def)
  have h: "fst (zfs_set_prop_str ''pool/ost0'' ''lustre:fsname'' (Some ''lustre'')
             example_world) = 0"
    by (simp add: zfs_set_prop_str_def zfs_prop_set_def example_world_def)
  have c: "zfs_get_prop_str ''pool/ost0'' ''lustre:uuid'' ''before''
             (snd (zfs_set_prop_str ''pool/ost0'' ''lustre:uuid'' (Some []) example_world)) =
           (ENOENT, ''before'')"
    using zfs_prop_str_empty_and_round_trip
            [where zhp = "''pool/ost0''" and pname = "''lustre:uuid''" and w = example_world
               and ps = "[]" and old = "''before''",
             THEN conjunct2, THEN conjunct2, THEN conjunct1] p
    by simp
  have d: "zfs_get_prop_str ''pool/ost0'' ''lustre:fsname'' ''before''
             (snd (zfs_set_prop_str ''pool/ost0'' ''lustre:fsname'' (Some ''lustre'')
                     example_world)) =
           (0, ''lustre'')"
    using zfs_prop_str_empty_and_round_trip
            [where zhp = "''pool/ost0''" and pname = "''lustre:fsname''"
               and w = example_world and s = "''lustre''" and old = "''before''",
             THEN conjunct2, THEN conjunct2, THEN conjunct2] h
    by simp
  from p c h d show ?thesis by blast
qed

subsection \<open>The bulk write at a malformed token\<close>

lemma strtok_r_buf:
  assumes "strtok_r tok d = Some (key, rest)"
  shows "strtok_r (strtok_buf tok d) d = Some (key, [])"
proof -
  let ?P = "\<lambda>c. c \<in> set d"
  let ?s1 = "dropWhile ?P tok"
  from assms have ne: "?s1 \<noteq> []" and key: "key = takeWhile (\<lambda>c. c \<notin> set d) ?s1"
    by (auto simp: strtok_r_def Let_def split: if_splits)
  from ne have hd: "\<not> ?P (hd ?s1)" by (rule hd_dropWhile)
  from ne hd have kne: "key \<noteq> []" unfolding key by (cases ?s1) auto
  have all: "\<And>x. x \<in> set key \<Longrightarrow> \<not> ?P x"
    unfolding key by (auto dest: set_takeWhileD)
  have a: "dropWhile ?P (strtok_buf tok d) = key"
  proof -
    have "dropWhile ?P (takeWhile ?P tok @ key) = dropWhile ?P key"
      by (rule dropWhile_append2) (auto dest: set_takeWhileD)
    also have "\<dots> = key" using kne all by (cases key) auto
    finally show ?thesis by (simp add: strtok_buf_def key)
  qed
  have b: "takeWhile (\<lambda>c. c \<notin> set d) key = key"
    using all by (simp add: takeWhile_eq_all_conv)
  have c: "dropWhile (\<lambda>c. c \<notin> set d) key = []"
    using all by simp
  show ?thesis
    unfolding strtok_r_def a by (simp add: Let_def b c kne)
qed

lemma malformed_buf:
  "malformed tok \<Longrightarrow> strtok_r tok ''='' = Some (key, rest) \<Longrightarrow> malformed (strtok_buf tok ''='')"
  by (simp add: malformed_def strtok_r_buf) (simp add: strtok_r_def)

lemma loop_returns_not_malformed:
  "zfs_set_prop_params_loop zhp token save_token ret w = Some y \<Longrightarrow>
   \<forall>tok. token = Some tok \<longrightarrow> \<not> malformed tok"
proof (erule zfs_set_prop_params_loop.raw_induct [rotated], intro allI impI notI)
  fix f zhp token save_token ret w y tok
  assume IH: "\<And>zhp token save_token ret w y. f zhp token save_token ret w = Some y \<Longrightarrow>
                \<forall>tok. token = Some tok \<longrightarrow> \<not> malformed tok"
    and step: "(case token of
        None \<Rightarrow> Some (ret, w)
      | Some tok \<Rightarrow>
          (case strtok_r tok ''='' of
             None \<Rightarrow> f zhp (Some tok) save_token ret w
           | Some (key, rest) \<Rightarrow>
               (case strtok_r rest ''='' of
                  None \<Rightarrow>
                    f zhp (Some (strtok_buf tok ''='')) save_token ret w
                | Some (val, rest') \<Rightarrow>
                    (case zfs_prop_set zhp (LDD_PREFIX @ key) val w of
                       (ret', w') \<Rightarrow>
                         if ret' \<noteq> 0 then Some (ret', w')
                         else (case strtok_r save_token '' '' of
                                 None \<Rightarrow> f zhp None [] ret' w'
                               | Some (tok', save') \<Rightarrow>
                                   f zhp (Some tok') save' ret' w'))))) = Some y"
    and tok: "token = Some tok" and m: "malformed tok"
  show False
  proof (cases "strtok_r tok ''=''")
    case None
    with step tok have "f zhp (Some tok) save_token ret w = Some y"
      by simp
    from IH [OF this] m show False by simp
  next
    case (Some kr)
    obtain key rest where kr: "kr = (key, rest)" by (cases kr)
    from m Some kr have v: "strtok_r rest ''='' = None"
      by (simp add: malformed_def)
    with step tok Some kr have "f zhp (Some (strtok_buf tok ''='')) save_token ret w = Some y"
      by simp
    from IH [OF this] malformed_buf [OF m] Some kr show False by simp
  qed
qed

lemma loop_malformed:
  "malformed tok \<Longrightarrow> zfs_set_prop_params_loop zhp (Some tok) save_token ret w = None"
  using loop_returns_not_malformed [of zhp "Some tok" save_token ret w]
  by (cases "zfs_set_prop_params_loop zhp (Some tok) save_token ret w") auto

text \<open>
  C1, as the code has it. The claim wants a malformed token skipped and the tokens after it
  written. In the code both \<^verbatim>\<open>continue\<close> statements come back to the loop test with
  \<open>token\<close> unchanged, so at a token without a key or without a value
  \<^verbatim>\<open>zfs_set_prop_params\<close> never returns: for the blobs \<^verbatim>\<open>nokey opt1=a\<close> and
  \<^verbatim>\<open>novalue= opt1=a\<close> the result is \<open>None\<close>, and \<^verbatim>\<open>lustre:opt1\<close> is never
  written.
\<close>

theorem zfs_set_prop_params_malformed_never_returns:
  "zfs_set_prop_params ''pool/ost0'' ''nokey opt1=a'' example_world = None \<and>
   zfs_set_prop_params ''pool/ost0'' ''novalue= opt1=a'' example_world = None"
proof -
  have t1: "strtok_r ''nokey opt1=a'' '' '' = Some (''nokey'', ''opt1=a'')"
    by (simp add: strtok_r_def)
  have m1: "malformed ''nokey''"
    by (simp add: malformed_def strtok_r_def)
  have t2: "strtok_r ''novalue= opt1=a'' '' '' = Some (''novalue='', ''opt1=a'')"
    by (simp add: strtok_r_def)
  have m2: "malformed ''novalue=''"
    by (simp add: malformed_def strtok_r_def)
  have "0 < mem_avail example_world" by (simp add: example_world_def)
  then show ?thesis
    by (simp add: zfs_set_prop_params_def t1 t2 loop_malformed [OF m1] loop_malformed [OF m2])
qed

subsection \<open>The bulk codec on the example blob\<close>

text \<open>
  C4. On a dataset with user properties \<open>ps\<close>, when memory is left and the store accepts
  both properties, \<^verbatim>\<open>zfs_set_prop_params\<close> of the blob \<^verbatim>\<open>opt1=a opt2=b\<close> returns
  0 after exactly two property-store calls, \<^verbatim>\<open>lustre:opt1\<close> = \<^verbatim>\<open>a\<close> and then
  \<^verbatim>\<open>lustre:opt2\<close> = \<^verbatim>\<open>b\<close>, and the properties are \<open>ps\<close> with these two set. On a
  dataset that has exactly these two properties, \<^verbatim>\<open>zfs_get_prop_params\<close> into an empty
  buffer, with \<^verbatim>\<open>add_param\<close> as the spec has it, returns 0 and the buffer holds the two
  pairs without the namespace prefix, in the order of the enumeration and nothing else:
  \<^verbatim>\<open>opt1=a opt2=b \<close> when \<^verbatim>\<open>lustre:opt1\<close> is enumerated first, \<^verbatim>\<open>opt2=b opt1=a \<close> when
  \<^verbatim>\<open>lustre:opt2\<close> is. In both, \<^verbatim>\<open>opt1=a\<close> and \<^verbatim>\<open>opt2=b\<close> occur.
\<close>

theorem bulk_codec_example:
  "(0 < mem_avail w \<and> zfs_get_user_props zhp w = Some ps \<and>
    prop_set_err w zhp ''lustre:opt1'' ''a'' = 0 \<and>
    prop_set_err w zhp ''lustre:opt2'' ''b'' = 0 \<longrightarrow>
      (\<exists>w'. zfs_set_prop_params zhp ''opt1=a opt2=b'' w = Some (0, w') \<and>
            zfs_get_user_props zhp w' =
              Some (AList.update ''lustre:opt2'' (Some ''b'')
                      (AList.update ''lustre:opt1'' (Some ''a'') ps)) \<and>
            trace w' = trace w @ [EvPropSet zhp ''lustre:opt1'' ''a'' 0,
                                  EvPropSet zhp ''lustre:opt2'' ''b'' 0] \<and>
            mem_avail w' = mem_avail w - 1)) \<and>
   (0 < mem_avail w \<and> zfs_get_user_props zhp w = Some qs \<and>
    (qs = [(''lustre:opt1'', Some ''a''), (''lustre:opt2'', Some ''b'')] \<or>
     qs = [(''lustre:opt2'', Some ''b''), (''lustre:opt1'', Some ''a'')]) \<and>
    add_param h = add_param_spec \<longrightarrow>
      (\<exists>blob. zfs_get_prop_params h zhp [] 4096 w = (0, blob, alloc w) \<and>
              blob = (if qs = [(''lustre:opt1'', Some ''a''), (''lustre:opt2'', Some ''b'')]
                      then ''opt1=a opt2=b '' else ''opt2=b opt1=a '') \<and>
              strstr blob ''opt1=a'' \<and> strstr blob ''opt2=b''))"
proof (intro conjI impI)
  assume "0 < mem_avail w \<and> zfs_get_user_props zhp w = Some ps \<and>
    prop_set_err w zhp ''lustre:opt1'' ''a'' = 0 \<and>
    prop_set_err w zhp ''lustre:opt2'' ''b'' = 0"
  then show "\<exists>w'. zfs_set_prop_params zhp ''opt1=a opt2=b'' w = Some (0, w') \<and>
            zfs_get_user_props zhp w' =
              Some (AList.update ''lustre:opt2'' (Some ''b'')
                      (AList.update ''lustre:opt1'' (Some ''a'') ps)) \<and>
            trace w' = trace w @ [EvPropSet zhp ''lustre:opt1'' ''a'' 0,
                                  EvPropSet zhp ''lustre:opt2'' ''b'' 0] \<and>
            mem_avail w' = mem_avail w - 1"
    by (auto simp add: zfs_set_prop_params_def zfs_set_prop_params_loop.simps strtok_r_def
          zfs_prop_set_def alloc_def LDD_PREFIX_def zfs_get_user_props_def Let_def update_conv'
          split: option.splits)
next
  assume "0 < mem_avail w \<and> zfs_get_user_props zhp w = Some qs \<and>
    (qs = [(''lustre:opt1'', Some ''a''), (''lustre:opt2'', Some ''b'')] \<or>
     qs = [(''lustre:opt2'', Some ''b''), (''lustre:opt1'', Some ''a'')]) \<and>
    add_param h = add_param_spec"
  then show "\<exists>blob. zfs_get_prop_params h zhp [] 4096 w = (0, blob, alloc w) \<and>
              blob = (if qs = [(''lustre:opt1'', Some ''a''), (''lustre:opt2'', Some ''b'')]
                      then ''opt1=a opt2=b '' else ''opt2=b opt1=a '') \<and>
              strstr blob ''opt1=a'' \<and> strstr blob ''opt2=b''"
    by (auto simp add: zfs_get_prop_params_def zfs_get_prop_str_def nvlist_lookup_nvlist_def
          nvlist_lookup_string_def alloc_def LDD_PREFIX_def zfs_get_user_props_def Let_def
          strncmp_eq_def zfs_is_special_ldd_prop_param_def special_ldd_prop_params_def
          add_param_spec_def LDD_VERSION_PROP_def LDD_FLAGS_PROP_def LDD_INDEX_PROP_def
          LDD_FSNAME_PROP_def LDD_SVNAME_PROP_def LDD_UUID_PROP_def LDD_USERDATA_PROP_def
          LDD_MOUNTOPTS_PROP_def)
qed

theorem bulk_codec_example_witness:
  "\<exists>w'. zfs_set_prop_params ''pool/ost0'' ''opt1=a opt2=b'' example_world = Some (0, w') \<and>
        zfs_get_user_props ''pool/ost0'' w' =
          Some [(''lustre:opt1'', Some ''a''), (''lustre:opt2'', Some ''b'')] \<and>
        zfs_get_prop_params example_hdr ''pool/ost0'' [] 4096 w' =
          (0, ''opt1=a opt2=b '', alloc w') \<and>
        strstr ''opt1=a opt2=b '' ''opt1=a'' \<and> strstr ''opt1=a opt2=b '' ''opt2=b''"
proof -
  have pre: "0 < mem_avail example_world \<and>
             zfs_get_user_props ''pool/ost0'' example_world = Some [] \<and>
             prop_set_err example_world ''pool/ost0'' ''lustre:opt1'' ''a'' = 0 \<and>
             prop_set_err example_world ''pool/ost0'' ''lustre:opt2'' ''b'' = 0"
    by (simp add: example_world_def zfs_get_user_props_def)
  from bulk_codec_example [THEN conjunct1, rule_format, OF pre]
  obtain w' where w': "zfs_set_prop_params ''pool/ost0'' ''opt1=a opt2=b'' example_world =
                         Some (0, w')"
    and props: "zfs_get_user_props ''pool/ost0'' w' =
                  Some [(''lustre:opt1'', Some ''a''), (''lustre:opt2'', Some ''b'')]"
    and mem: "mem_avail w' = mem_avail example_world - 1"
    by auto
  from mem have "0 < mem_avail w'" by (simp add: example_world_def)
  with props have pre2: "0 < mem_avail w' \<and>
      zfs_get_user_props ''pool/ost0'' w' =
        Some [(''lustre:opt1'', Some ''a''), (''lustre:opt2'', Some ''b'')] \<and>
      ([(''lustre:opt1'', Some ''a''), (''lustre:opt2'', Some ''b'')] =
         [(''lustre:opt1'', Some ''a''), (''lustre:opt2'', Some ''b'')] \<or>
       [(''lustre:opt1'', Some ''a''), (''lustre:opt2'', Some ''b'')] =
         [(''lustre:opt2'', Some ''b''), (''lustre:opt1'', Some ''a'')]) \<and>
      add_param example_hdr = add_param_spec"
    by (simp add: example_hdr_def)
  from bulk_codec_example [THEN conjunct2, rule_format, OF pre2]
  have r: "zfs_get_prop_params example_hdr ''pool/ost0'' [] 4096 w' =
             (0, ''opt1=a opt2=b '', alloc w') \<and>
           strstr ''opt1=a opt2=b '' ''opt1=a'' \<and> strstr ''opt1=a opt2=b '' ''opt2=b''"
    by auto
  from w' props r show ?thesis by blast
qed

subsection \<open>The library that is not ready\<close>

lemmas prop_names =
  LDD_PREFIX_def LDD_VERSION_PROP_def LDD_FLAGS_PROP_def LDD_INDEX_PROP_def
  LDD_FSNAME_PROP_def LDD_SVNAME_PROP_def LDD_UUID_PROP_def LDD_USERDATA_PROP_def
  LDD_MOUNTOPTS_PROP_def

lemma osd_check_ready: "osd_zfs_setup w = 1 \<Longrightarrow> osd_check_zfs_setup w = (1, w)"
  by (simp add: osd_check_zfs_setup_def)

text \<open>
  C3, as stated, fails: with the flag 0, \<^verbatim>\<open>zfs_enable_quota\<close> returns \<^verbatim>\<open>ENOSYS\<close> and
  \<^verbatim>\<open>zfs_is_lustre\<close> returns 0, neither of them the invalid-argument code.
\<close>

theorem not_ready_counterexample:
  "osd_zfs_setup not_ready_world = 0 \<and>
   fst (zfs_enable_quota example_mop not_ready_world) \<noteq> EINVAL \<and>
   fst (zfs_is_lustre example_hdr ''pool/ost0'' example_ldd 0 not_ready_world) \<noteq> EINVAL"
  by (simp add: zfs_enable_quota_def zfs_is_lustre_def not_ready_world_def example_world_def
        EINVAL_def ENOSYS_def)

text \<open>
  C3, amended. With the flag 0, \<^verbatim>\<open>zfs_write_ldd\<close>, \<^verbatim>\<open>zfs_read_ldd\<close>,
  \<^verbatim>\<open>zfs_make_lustre\<close>, \<^verbatim>\<open>zfs_prepare_lustre\<close>, \<^verbatim>\<open>zfs_tune_lustre\<close> and
  \<^verbatim>\<open>zfs_label_lustre\<close> return \<^verbatim>\<open>EINVAL\<close> and have done nothing but write the
  diagnostic of \<^verbatim>\<open>osd_check_zfs_setup\<close>: no dataset is opened, no property read or
  written, no command run, the disk data and the options are untouched.
  \<^verbatim>\<open>zfs_is_lustre\<close> tests the flag first too, but answers 0 (not Lustre) and writes
  nothing. \<^verbatim>\<open>zfs_enable_quota\<close> does not look at the flag: it writes its message and
  returns \<^verbatim>\<open>ENOSYS\<close> in every state.
\<close>

theorem not_ready_fails_first:
  "osd_zfs_setup w = 0 \<Longrightarrow>
   zfs_write_ldd h mop w =
     Some (EINVAL, w\<lparr>stderr := stderr w @ [Fatal, Msg (''Failed to initialize ZFS library. Are the ZFS '' @ ''packages and modules correctly installed?'')]\<rparr>) \<and>
   zfs_read_ldd h ds ldd w =
     (EINVAL, ldd, w\<lparr>stderr := stderr w @ [Fatal, Msg (''Failed to initialize ZFS library. Are the ZFS '' @ ''packages and modules correctly installed?'')]\<rparr>) \<and>
   zfs_make_lustre h mop w =
     Some (EINVAL, mop, w\<lparr>stderr := stderr w @ [Fatal, Msg (''Failed to initialize ZFS library. Are the ZFS '' @ ''packages and modules correctly installed?'')]\<rparr>) \<and>
   zfs_prepare_lustre mop wanted len w =
     (EINVAL, w\<lparr>stderr := stderr w @ [Fatal, Msg (''Failed to initialize ZFS library. Are the ZFS '' @ ''packages and modules correctly installed?'')]\<rparr>) \<and>
   zfs_tune_lustre dev mnt w =
     (EINVAL, w\<lparr>stderr := stderr w @ [Fatal, Msg (''Failed to initialize ZFS library. Are the ZFS '' @ ''packages and modules correctly installed?'')]\<rparr>) \<and>
   zfs_label_lustre mnt w =
     (EINVAL, w\<lparr>stderr := stderr w @ [Fatal, Msg (''Failed to initialize ZFS library. Are the ZFS '' @ ''packages and modules correctly installed?'')]\<rparr>) \<and>
   zfs_is_lustre h ds tmp mt w = (0, mt, w) \<and>
   zfs_enable_quota mop w =
     (ENOSYS, w\<lparr>stderr := stderr w @ [Msg ''this option is not only valid for zfs'']\<rparr>)"
proof -
  assume nr: "osd_zfs_setup w = 0"
  define w' where "w' = w\<lparr>stderr := stderr w @ [Fatal, Msg (''Failed to initialize ZFS library. Are the ZFS '' @ ''packages and modules correctly installed?'')]\<rparr>"
  have c: "osd_check_zfs_setup w = (0, w')"
    using nr by (simp add: osd_check_zfs_setup_def w'_def eprintf_def fatal_def)
  have "zfs_write_ldd h mop w = Some (EINVAL, w') \<and>
        zfs_read_ldd h ds ldd w = (EINVAL, ldd, w') \<and>
        zfs_make_lustre h mop w = Some (EINVAL, mop, w') \<and>
        zfs_prepare_lustre mop wanted len w = (EINVAL, w') \<and>
        zfs_tune_lustre dev mnt w = (EINVAL, w') \<and>
        zfs_label_lustre mnt w = (EINVAL, w') \<and>
        zfs_is_lustre h ds tmp mt w = (0, mt, w) \<and>
        zfs_enable_quota mop w =
          (ENOSYS, w\<lparr>stderr := stderr w @ [Msg ''this option is not only valid for zfs'']\<rparr>)"
    using nr
    by (simp add: c zfs_write_ldd_def zfs_read_ldd_def zfs_make_lustre_def
          zfs_prepare_lustre_def zfs_tune_lustre_def zfs_label_lustre_def zfs_is_lustre_def
          zfs_enable_quota_def eprintf_def Let_def)
  then show ?thesis unfolding w'_def .
qed

theorem not_ready_fails_first_witness:
  "osd_zfs_setup not_ready_world = 0 \<and>
   map_option fst (zfs_write_ldd example_hdr example_mop not_ready_world) = Some EINVAL \<and>
   fst (zfs_read_ldd example_hdr ''pool/ost0'' example_ldd not_ready_world) = EINVAL \<and>
   map_option fst (zfs_make_lustre example_hdr example_mop not_ready_world) = Some EINVAL \<and>
   fst (zfs_prepare_lustre example_mop [] 0 not_ready_world) = EINVAL \<and>
   fst (zfs_tune_lustre ''pool/ost0'' example_mnt not_ready_world) = EINVAL \<and>
   fst (zfs_label_lustre example_mnt not_ready_world) = EINVAL \<and>
   fst (zfs_is_lustre example_hdr ''pool/ost0'' example_ldd 0 not_ready_world) = 0 \<and>
   fst (zfs_enable_quota example_mop not_ready_world) = ENOSYS"
proof -
  have nr: "osd_zfs_setup not_ready_world = 0"
    by (simp add: not_ready_world_def)
  from not_ready_fails_first
         [OF nr, of example_hdr example_mop "''pool/ost0''" example_ldd "[]" 0
            "''pool/ost0''" example_mnt example_ldd 0]
       nr
  show ?thesis by simp
qed

subsection \<open>The host-id check\<close>

text \<open>
  C6. When the parameter blob does not mention the failover-node option,
  \<^verbatim>\<open>zfs_check_hostid\<close> returns 0 and has touched nothing: no file is opened. When the
  blob mentions it, the module parameter reads 0 and \<^verbatim>\<open>/etc/hostid\<close> gives 0 too (it is
  missing, short or zero), both files have been opened in this order, and the check
  returns \<^verbatim>\<open>EINVAL\<close> if the flag \<^verbatim>\<open>MO_NOHOSTID_CHECK\<close> is not set; if it is set the
  check returns 0 and the last diagnostic is the warning, with no fatal marker written.
\<close>

theorem zfs_check_hostid_zero:
  "(\<not> strstr (ldd_params (mo_ldd mop)) (PARAM_FAILNODE h) \<longrightarrow>
      zfs_check_hostid h mop w = (0, w)) \<and>
   (strstr (ldd_params (mo_ldd mop)) (PARAM_FAILNODE h) \<and> spl_hostid w = SplScan 1 0 \<and>
    hostid_of_file (etc_hostid w) = 0 \<longrightarrow>
      trace (snd (zfs_check_hostid h mop w)) =
        trace w @ [EvFopen SPL_HOSTID_PATH, EvFopen HOSTID_PATH] \<and>
      (mo_flags mop AND MO_NOHOSTID_CHECK h = 0 \<longrightarrow>
         fst (zfs_check_hostid h mop w) = EINVAL) \<and>
      (mo_flags mop AND MO_NOHOSTID_CHECK h \<noteq> 0 \<longrightarrow>
         fst (zfs_check_hostid h mop w) = 0 \<and>
         (\<exists>pre. stderr (snd (zfs_check_hostid h mop w)) =
                  stderr w @ pre @
                  [Msg ''WARNING: spl_hostid not set. ZFS has no zpool import protection''] \<and>
                Fatal \<notin> set pre)))"
  by (auto simp add: zfs_check_hostid_def zfs_check_hostid_out_def hostid_of_file_def Let_def
        eprintf_def fatal_def split: hostid_file.splits if_splits)

theorem zfs_check_hostid_zero_witness:
  "strstr (ldd_params (mo_ldd failnode_mop)) (PARAM_FAILNODE example_hdr) \<and>
   spl_hostid example_world = SplScan 1 0 \<and>
   hostid_of_file (etc_hostid example_world) = 0 \<and>
   fst (zfs_check_hostid example_hdr failnode_mop example_world) = EINVAL \<and>
   fst (zfs_check_hostid example_hdr failnode_mop_nocheck example_world) = 0 \<and>
   zfs_check_hostid example_hdr example_mop example_world = (0, example_world)"
proof -
  have pre: "strstr (ldd_params (mo_ldd failnode_mop)) (PARAM_FAILNODE example_hdr) \<and>
     \<not> strstr (ldd_params (mo_ldd example_mop)) (PARAM_FAILNODE example_hdr) \<and>
     spl_hostid example_world = SplScan 1 0 \<and> hostid_of_file (etc_hostid example_world) = 0 \<and>
     mo_flags failnode_mop AND MO_NOHOSTID_CHECK example_hdr = 0 \<and>
     mo_flags failnode_mop_nocheck AND MO_NOHOSTID_CHECK example_hdr \<noteq> 0 \<and>
     strstr (ldd_params (mo_ldd failnode_mop_nocheck)) (PARAM_FAILNODE example_hdr)"
    by (simp add: failnode_mop_def failnode_mop_nocheck_def example_mop_def example_ldd_def
          example_hdr_def example_world_def hostid_of_file_def)
  have a: "fst (zfs_check_hostid example_hdr failnode_mop example_world) = EINVAL"
    using zfs_check_hostid_zero [of failnode_mop example_hdr example_world] pre by blast
  have b: "fst (zfs_check_hostid example_hdr failnode_mop_nocheck example_world) = 0"
    using zfs_check_hostid_zero [of failnode_mop_nocheck example_hdr example_world] pre
    by blast
  have c: "zfs_check_hostid example_hdr example_mop example_world = (0, example_world)"
    using zfs_check_hostid_zero [of example_mop example_hdr example_world] pre by blast
  from pre a b c show ?thesis by blast
qed

subsection \<open>Reading depends on the properties only\<close>

lemma get_user_props_cong:
  "datasets w' = datasets w \<Longrightarrow> zfs_get_user_props zhp w' = zfs_get_user_props zhp w"
  by (simp add: zfs_get_user_props_def)

lemma zfs_get_prop_str_cong:
  "datasets w' = datasets w \<Longrightarrow> zfs_get_prop_str zhp n v w' = zfs_get_prop_str zhp n v w"
  by (simp add: zfs_get_prop_str_def get_user_props_cong [of w' w])

lemma zlpb_get_cong:
  "datasets w' = datasets w \<Longrightarrow> zlpb_get_prop_fn b zhp ldd w' = zlpb_get_prop_fn b zhp ldd w"
  by (cases b)
     (simp_all add: zfs_get_prop_int_def zfs_get_prop_str_def get_user_props_cong [of w' w])

lemma zlpb_get_ret_indep:
  "fst (zlpb_get_prop_fn b zhp ldd' w) = fst (zlpb_get_prop_fn b zhp ldd w)"
  by (cases b)
     (auto simp: zfs_get_prop_int_def zfs_get_prop_str_def Let_def split: sum.splits prod.splits)

lemma zlpb_get_params:
  "ldd_params (snd (zlpb_get_prop_fn b zhp ldd w)) = ldd_params ldd"
proof (cases b)
  case (ZLB_int n f)
  then show ?thesis by (cases f) (simp_all add: split_beta Let_def)
next
  case (ZLB_str n f)
  then show ?thesis by (cases f) (simp_all add: split_beta Let_def)
qed

lemma read_bridge_cong:
  "datasets w' = datasets w \<Longrightarrow> read_bridge zhp bs ldd w' = read_bridge zhp bs ldd w"
proof -
  assume d: "datasets w' = datasets w"
  show ?thesis
    by (induction bs arbitrary: ldd) (simp_all add: zlpb_get_cong [OF d] split: prod.splits)
qed

lemma read_bridge_params:
  "ldd_params (snd (read_bridge zhp bs ldd w)) = ldd_params ldd"
proof (induction bs arbitrary: ldd)
  case Nil
  show ?case by simp
next
  case (Cons b bs)
  obtain r l where g: "zlpb_get_prop_fn b zhp ldd w = (r, l)"
    by (cases "zlpb_get_prop_fn b zhp ldd w")
  with zlpb_get_params [of b zhp ldd w] have "ldd_params l = ldd_params ldd" by simp
  with g Cons.IH [of l] show ?case by simp
qed

lemma read_bridge_all_ok:
  "\<forall>b\<in>set bs. fst (zlpb_get_prop_fn b zhp ldd0 w) = 0 \<or>
                fst (zlpb_get_prop_fn b zhp ldd0 w) = ENOENT \<Longrightarrow>
   fst (read_bridge zhp bs ldd w) = None"
proof (induction bs arbitrary: ldd)
  case Nil
  show ?case by simp
next
  case (Cons b bs)
  obtain r l where g: "zlpb_get_prop_fn b zhp ldd w = (r, l)"
    by (cases "zlpb_get_prop_fn b zhp ldd w")
  from Cons.prems have "fst (zlpb_get_prop_fn b zhp ldd0 w) = 0 \<or>
                        fst (zlpb_get_prop_fn b zhp ldd0 w) = ENOENT" by simp
  with g zlpb_get_ret_indep [of b zhp ldd w ldd0] have "r = 0 \<or> r = ENOENT" by simp
  moreover from Cons have "fst (read_bridge zhp bs l w) = None" by simp
  ultimately show ?case using g by auto
qed

lemma read_bridge_first_fatal:
  "\<forall>b'\<in>set bs1. fst (zlpb_get_prop_fn b' zhp ldd0 w) = 0 \<or>
                  fst (zlpb_get_prop_fn b' zhp ldd0 w) = ENOENT \<Longrightarrow>
   fst (zlpb_get_prop_fn b zhp ldd0 w) = e \<Longrightarrow> e \<noteq> 0 \<Longrightarrow> e \<noteq> ENOENT \<Longrightarrow>
   fst (read_bridge zhp (bs1 @ b # bs2) ldd w) = Some e"
proof (induction bs1 arbitrary: ldd)
  case Nil
  obtain r l where g: "zlpb_get_prop_fn b zhp ldd w = (r, l)"
    by (cases "zlpb_get_prop_fn b zhp ldd w")
  with Nil zlpb_get_ret_indep [of b zhp ldd w ldd0] have "r = e" by simp
  with g Nil show ?case by simp
next
  case (Cons a bs1)
  obtain r l where g: "zlpb_get_prop_fn a zhp ldd w = (r, l)"
    by (cases "zlpb_get_prop_fn a zhp ldd w")
  from Cons.prems have "fst (zlpb_get_prop_fn a zhp ldd0 w) = 0 \<or>
                        fst (zlpb_get_prop_fn a zhp ldd0 w) = ENOENT" by simp
  with g zlpb_get_ret_indep [of a zhp ldd w ldd0] have "r = 0 \<or> r = ENOENT" by simp
  moreover from Cons have "fst (read_bridge zhp (bs1 @ b # bs2) l w) = Some e" by simp
  ultimately show ?case using g by auto
qed

lemma get_params_loop_cong:
  "datasets w' = datasets w \<Longrightarrow>
   zfs_get_prop_params_loop h zhp w' names val ret param =
   zfs_get_prop_params_loop h zhp w names val ret param"
proof -
  assume d: "datasets w' = datasets w"
  show ?thesis
    by (induction names arbitrary: val ret param)
       (simp_all add: zfs_get_prop_str_cong [OF d] split: prod.splits)
qed

lemma get_params_cong:
  assumes "datasets w' = datasets w" and "mem_avail w' = mem_avail w"
  shows "fst (zfs_get_prop_params h zhp p len w') = fst (zfs_get_prop_params h zhp p len w) \<and>
         fst (snd (zfs_get_prop_params h zhp p len w')) =
         fst (snd (zfs_get_prop_params h zhp p len w))"
proof -
  have "datasets (alloc w') = datasets (alloc w)" using assms by (simp add: alloc_def)
  from get_params_loop_cong [OF this] assms show ?thesis
    by (auto simp: zfs_get_prop_params_def get_user_props_cong [OF assms(1)]
             split: option.splits prod.splits)
qed

lemma read_ldd_props_cong:
  assumes "datasets w' = datasets w" and "mem_avail w' = mem_avail w"
  shows "fst (zfs_read_ldd_props h zhp ldd w') = fst (zfs_read_ldd_props h zhp ldd w) \<and>
         fst (snd (zfs_read_ldd_props h zhp ldd w')) =
         fst (snd (zfs_read_ldd_props h zhp ldd w))"
proof -
  obtain r l where rb: "read_bridge zhp special_ldd_prop_params ldd w = (r, l)"
    by (cases "read_bridge zhp special_ldd_prop_params ldd w")
  then have rb': "read_bridge zhp special_ldd_prop_params ldd w' = (r, l)"
    using read_bridge_cong [OF assms(1)] by simp
  from get_params_cong [OF assms, of h zhp "ldd_params l" 4096] rb rb'
  show ?thesis
    by (cases r) (auto simp: zfs_read_ldd_props_def Let_def split: prod.splits)
qed

lemma zfs_read_ldd_props_handles:
  "open_handles (snd (snd (zfs_read_ldd_props h zhp ldd w))) = open_handles w \<and>
   trace (snd (snd (zfs_read_ldd_props h zhp ldd w))) = trace w"
  by (auto simp: zfs_read_ldd_props_def zfs_get_prop_params_def alloc_def Let_def
           split: prod.splits option.splits)

lemma zfs_read_ldd_opened:
  assumes ready: "osd_zfs_setup w = 1"
    and ex: "map_of (datasets w) ds = Some d"
    and ty: "ds_type d = ZFS_TYPE_FILESYSTEM \<or> ds_type d = ZFS_TYPE_SNAPSHOT"
  shows "fst (zfs_read_ldd h ds ldd w) = fst (zfs_read_ldd_props h ds ldd w) \<and>
         fst (snd (zfs_read_ldd h ds ldd w)) = fst (snd (zfs_read_ldd_props h ds ldd w))"
proof -
  define w1 where "w1 = w\<lparr>open_handles := ds # open_handles w,
                            trace := trace w @ [EvOpen ds ZFS_TYPE_FILESYSTEM True]\<rparr>"
  define w2 where "w2 = w\<lparr>open_handles := ds # open_handles w,
                            trace := trace w @ [EvOpen ds ZFS_TYPE_FILESYSTEM False,
                                                EvOpen ds ZFS_TYPE_SNAPSHOT True]\<rparr>"
  have c1: "datasets w1 = datasets w" "mem_avail w1 = mem_avail w" by (simp_all add: w1_def)
  have c2: "datasets w2 = datasets w" "mem_avail w2 = mem_avail w" by (simp_all add: w2_def)
  from ty show ?thesis
  proof
    assume "ds_type d = ZFS_TYPE_FILESYSTEM"
    then have "zfs_read_ldd h ds ldd w =
               (case zfs_read_ldd_props h ds ldd w1 of (ret, ldd', w') \<Rightarrow> (ret, ldd', zfs_close ds w'))"
      using ex by (simp add: zfs_read_ldd_def osd_check_ready [OF ready] zfs_open_def w1_def)
    with read_ldd_props_cong [OF c1, of h ds ldd] show ?thesis
      by (simp add: split_beta)
  next
    assume "ds_type d = ZFS_TYPE_SNAPSHOT"
    then have "zfs_read_ldd h ds ldd w =
               (case zfs_read_ldd_props h ds ldd w2 of (ret, ldd', w') \<Rightarrow> (ret, ldd', zfs_close ds w'))"
      using ex by (simp add: zfs_read_ldd_def osd_check_ready [OF ready] zfs_open_def w2_def)
    with read_ldd_props_cong [OF c2, of h ds ldd] show ?thesis
      by (simp add: split_beta)
  qed
qed


text \<open>
  C7. For a dataset that opens (as a filesystem or as a snapshot) while the library is
  ready: if every entry of the bridge table reads with 0 or \<^verbatim>\<open>ENOENT\<close> and the bulk read
  returns 0 or \<^verbatim>\<open>ENOENT\<close>, \<^verbatim>\<open>zfs_read_ldd\<close> returns 0 and the mount type of the record
  is \<^verbatim>\<open>LDD_MT_ZFS\<close>; if the entries before some entry read with 0 or \<^verbatim>\<open>ENOENT\<close> and
  this one with another code, \<^verbatim>\<open>zfs_read_ldd\<close> returns that code; if every entry reads
  with 0 or \<^verbatim>\<open>ENOENT\<close> and the bulk read returns another code, \<^verbatim>\<open>zfs_read_ldd\<close> returns
  that code.
\<close>

theorem zfs_read_ldd_not_found_tolerated:
  assumes ready: "osd_zfs_setup w = 1"
    and ex: "map_of (datasets w) ds = Some d"
    and ty: "ds_type d = ZFS_TYPE_FILESYSTEM \<or> ds_type d = ZFS_TYPE_SNAPSHOT"
  shows
   "((\<forall>b\<in>set special_ldd_prop_params.
        fst (zlpb_get_prop_fn b ds ldd w) = 0 \<or> fst (zlpb_get_prop_fn b ds ldd w) = ENOENT) \<and>
     (fst (zfs_get_prop_params h ds (ldd_params ldd) 4096 w) = 0 \<or>
      fst (zfs_get_prop_params h ds (ldd_params ldd) 4096 w) = ENOENT) \<longrightarrow>
       fst (zfs_read_ldd h ds ldd w) = 0 \<and>
       ldd_mount_type (fst (snd (zfs_read_ldd h ds ldd w))) = LDD_MT_ZFS h) \<and>
    (special_ldd_prop_params = bs1 @ b # bs2 \<and>
     (\<forall>b'\<in>set bs1.
        fst (zlpb_get_prop_fn b' ds ldd w) = 0 \<or> fst (zlpb_get_prop_fn b' ds ldd w) = ENOENT) \<and>
     fst (zlpb_get_prop_fn b ds ldd w) = e \<and> e \<noteq> 0 \<and> e \<noteq> ENOENT \<longrightarrow>
       fst (zfs_read_ldd h ds ldd w) = e) \<and>
    ((\<forall>b\<in>set special_ldd_prop_params.
        fst (zlpb_get_prop_fn b ds ldd w) = 0 \<or> fst (zlpb_get_prop_fn b ds ldd w) = ENOENT) \<and>
     fst (zfs_get_prop_params h ds (ldd_params ldd) 4096 w) = e \<and> e \<noteq> 0 \<and> e \<noteq> ENOENT \<longrightarrow>
       fst (zfs_read_ldd h ds ldd w) = e)"
proof -
  note op = zfs_read_ldd_opened [OF ready ex ty, of h ldd]
  obtain r l where rb: "read_bridge ds special_ldd_prop_params ldd w = (r, l)"
    by (cases "read_bridge ds special_ldd_prop_params ldd w")
  have lp: "ldd_params l = ldd_params ldd"
    using read_bridge_params [of ds special_ldd_prop_params ldd w] rb by simp
  obtain pr pp pw where gp: "zfs_get_prop_params h ds (ldd_params ldd) 4096 w = (pr, pp, pw)"
    by (cases "zfs_get_prop_params h ds (ldd_params ldd) 4096 w")
  have A: "fst (zfs_read_ldd_props h ds ldd w) = 0 \<and>
           ldd_mount_type (fst (snd (zfs_read_ldd_props h ds ldd w))) = LDD_MT_ZFS h"
    if ok: "\<forall>b\<in>set special_ldd_prop_params.
              fst (zlpb_get_prop_fn b ds ldd w) = 0 \<or> fst (zlpb_get_prop_fn b ds ldd w) = ENOENT"
      and bulk: "pr = 0 \<or> pr = ENOENT"
  proof -
    from read_bridge_all_ok [OF ok, of ldd] rb have "r = None" by simp
    with rb lp gp bulk show ?thesis
      by (auto simp: zfs_read_ldd_props_def Let_def)
  qed
  have B: "fst (zfs_read_ldd_props h ds ldd w) = e"
    if sp: "special_ldd_prop_params = bs1 @ b # bs2"
      and ok: "\<forall>b'\<in>set bs1.
              fst (zlpb_get_prop_fn b' ds ldd w) = 0 \<or> fst (zlpb_get_prop_fn b' ds ldd w) = ENOENT"
      and e: "fst (zlpb_get_prop_fn b ds ldd w) = e" "e \<noteq> 0" "e \<noteq> ENOENT"
  proof -
    from read_bridge_first_fatal [OF ok e, of bs2 ldd] rb sp have "r = Some e" by simp
    with rb show ?thesis by (simp add: zfs_read_ldd_props_def)
  qed
  have C: "fst (zfs_read_ldd_props h ds ldd w) = e"
    if ok: "\<forall>b\<in>set special_ldd_prop_params.
              fst (zlpb_get_prop_fn b ds ldd w) = 0 \<or> fst (zlpb_get_prop_fn b ds ldd w) = ENOENT"
      and e: "pr = e" "e \<noteq> 0" "e \<noteq> ENOENT"
  proof -
    from read_bridge_all_ok [OF ok, of ldd] rb have "r = None" by simp
    with rb lp gp e show ?thesis
      by (auto simp: zfs_read_ldd_props_def Let_def)
  qed
  from A B C op gp show ?thesis by simp
qed


theorem zfs_read_ldd_not_found_tolerated_witness:
  "fst (zfs_read_ldd example_hdr ''pool/ost0@backup'' example_ldd example_world) = 0 \<and>
   ldd_mount_type
     (fst (snd (zfs_read_ldd example_hdr ''pool/ost0@backup'' example_ldd example_world))) = 4 \<and>
   fst (zfs_read_ldd example_hdr ''pool/odd'' example_ldd example_world) = ERANGE \<and>
   fst (zfs_read_ldd example_hdr ''pool/ost0'' example_ldd (example_world\<lparr>mem_avail := 0\<rparr>)) =
     ENOMEM"
proof -
  have ready: "osd_zfs_setup example_world = 1"
    "osd_zfs_setup (example_world\<lparr>mem_avail := 0\<rparr>) = 1"
    by (simp_all add: example_world_def)
  have ex1: "map_of (datasets example_world) ''pool/ost0@backup'' =
      Some \<lparr>ds_type = ZFS_TYPE_SNAPSHOT,
            ds_props = Some [(''lustre:version'', Some ''1''),
                             (''lustre:svname'', Some ''lustre-OST0000''),
                             (''lustre:opt1'', Some ''a'')]\<rparr>"
    by (simp add: example_world_def)
  have ex2: "map_of (datasets example_world) ''pool/odd'' =
      Some \<lparr>ds_type = ZFS_TYPE_FILESYSTEM,
            ds_props = Some [(''lustre:version'', Some ''99999999999999999999'')]\<rparr>"
    by (simp add: example_world_def)
  have ex3: "map_of (datasets (example_world\<lparr>mem_avail := 0\<rparr>)) ''pool/ost0'' =
      Some \<lparr>ds_type = ZFS_TYPE_FILESYSTEM, ds_props = Some []\<rparr>"
    by (simp add: example_world_def)
  have ok1: "\<forall>b\<in>set special_ldd_prop_params.
      fst (zlpb_get_prop_fn b ''pool/ost0@backup'' example_ldd example_world) = 0 \<or>
      fst (zlpb_get_prop_fn b ''pool/ost0@backup'' example_ldd example_world) = ENOENT"
    by (simp add: special_ldd_prop_params_def prop_names zfs_get_prop_int_def
          zfs_get_prop_str_def zfs_get_user_props_def nvlist_lookup_nvlist_def
          nvlist_lookup_string_def example_world_def strtoul_def isspace_def digit_of_def
          isdigit_def ULONG_MAX_def Let_def)
  have bulk1: "fst (zfs_get_prop_params example_hdr ''pool/ost0@backup''
                      (ldd_params example_ldd) 4096 example_world) = 0"
    by (simp add: zfs_get_prop_params_def zfs_get_prop_str_def zfs_get_user_props_def
          nvlist_lookup_nvlist_def nvlist_lookup_string_def example_world_def example_ldd_def
          example_hdr_def add_param_spec_def strncmp_eq_def zfs_is_special_ldd_prop_param_def
          special_ldd_prop_params_def prop_names alloc_def)
  have a: "fst (zfs_read_ldd example_hdr ''pool/ost0@backup'' example_ldd example_world) = 0 \<and>
           ldd_mount_type (fst (snd (zfs_read_ldd example_hdr ''pool/ost0@backup'' example_ldd
             example_world))) = LDD_MT_ZFS example_hdr"
    using zfs_read_ldd_not_found_tolerated [OF ready(1) ex1, THEN conjunct1] ok1 bulk1
    by simp
  have sp: "special_ldd_prop_params =
      [] @ ZLB_int LDD_VERSION_PROP OFF_ldd_config_ver # tl special_ldd_prop_params"
    by (simp add: special_ldd_prop_params_def)
  have odd: "fst (zlpb_get_prop_fn (ZLB_int LDD_VERSION_PROP OFF_ldd_config_ver) ''pool/odd''
                    example_ldd example_world) = ERANGE"
    by (simp add: prop_names zfs_get_prop_int_def zfs_get_user_props_def
          nvlist_lookup_nvlist_def nvlist_lookup_string_def example_world_def strtoul_def
          isspace_def digit_of_def isdigit_def ULONG_MAX_def Let_def ERANGE_def)
  have b: "fst (zfs_read_ldd example_hdr ''pool/odd'' example_ldd example_world) = ERANGE"
    using zfs_read_ldd_not_found_tolerated
            [where ?bs1.0 = "[]" and b = "ZLB_int LDD_VERSION_PROP OFF_ldd_config_ver"
               and ?bs2.0 = "tl special_ldd_prop_params" and e = ERANGE and ldd = example_ldd
               and h = example_hdr,
             OF ready(1) ex2, THEN conjunct2, THEN conjunct1]
          sp odd
    by (simp add: ERANGE_def ENOENT_def)
  have ok3: "\<forall>b\<in>set special_ldd_prop_params.
      fst (zlpb_get_prop_fn b ''pool/ost0'' example_ldd (example_world\<lparr>mem_avail := 0\<rparr>)) = 0 \<or>
      fst (zlpb_get_prop_fn b ''pool/ost0'' example_ldd (example_world\<lparr>mem_avail := 0\<rparr>)) =
        ENOENT"
    by (simp add: special_ldd_prop_params_def prop_names zfs_get_prop_int_def
          zfs_get_prop_str_def zfs_get_user_props_def nvlist_lookup_nvlist_def
          example_world_def)
  have bulk3: "fst (zfs_get_prop_params example_hdr ''pool/ost0'' (ldd_params example_ldd) 4096
                      (example_world\<lparr>mem_avail := 0\<rparr>)) = ENOMEM"
    by (simp add: zfs_get_prop_params_def zfs_get_user_props_def example_world_def)
  have c: "fst (zfs_read_ldd example_hdr ''pool/ost0'' example_ldd
                  (example_world\<lparr>mem_avail := 0\<rparr>)) = ENOMEM"
    using zfs_read_ldd_not_found_tolerated
            [where e = ENOMEM and ldd = example_ldd and h = example_hdr,
             OF ready(2) ex3, THEN conjunct2, THEN conjunct2]
          ok3 bulk3
    by (simp add: ENOMEM_def ENOENT_def)
  from a b c show ?thesis by (simp add: example_hdr_def)
qed

lemma read_after_open:
  assumes d: "datasets w1 = datasets w" and m: "mem_avail w1 = mem_avail w"
    and h: "open_handles w1 = ds # open_handles w" and t: "trace w1 = trace w @ evs"
  shows "(case zfs_read_ldd_props h ds ldd w1 of (ret, ldd', w2) \<Rightarrow> (ret, ldd', zfs_close ds w2)) = r \<Longrightarrow>
     fst r = fst (zfs_read_ldd_props h ds ldd w) \<and>
     fst (snd r) = fst (snd (zfs_read_ldd_props h ds ldd w)) \<and>
     trace (snd (snd r)) = trace w @ evs @ [EvClose ds] \<and>
     open_handles (snd (snd r)) = open_handles w"
  using read_ldd_props_cong [OF d m, of h ds ldd] zfs_read_ldd_props_handles [of h ds ldd w1] h t
  by (auto simp: zfs_close_def split: prod.splits)


text \<open>
  C8. With the library ready, \<^verbatim>\<open>zfs_read_ldd\<close> tries the name as a filesystem first and,
  only if that fails, as a snapshot. When both opens fail it returns \<^verbatim>\<open>EINVAL\<close> with the
  record untouched and nothing but the two failed opens done. When the filesystem open
  succeeds the snapshot is not tried; when only the snapshot open succeeds, the return code
  and the record are exactly what the property phase gives on that dataset, and the handle
  is closed afterwards: a dataset that is only a snapshot reads as a filesystem with the
  same properties would.
\<close>

theorem zfs_read_ldd_snapshot_fallback:
  assumes ready: "osd_zfs_setup w = 1"
  shows
   "(fst (zfs_open ds ZFS_TYPE_FILESYSTEM w) = None \<and> fst (zfs_open ds ZFS_TYPE_SNAPSHOT w) = None \<longrightarrow>
       zfs_read_ldd h ds ldd w =
         (EINVAL, ldd, w\<lparr>trace := trace w @ [EvOpen ds ZFS_TYPE_FILESYSTEM False,
                                              EvOpen ds ZFS_TYPE_SNAPSHOT False]\<rparr>)) \<and>
    (fst (zfs_open ds ZFS_TYPE_FILESYSTEM w) = Some zhp \<longrightarrow>
       fst (zfs_read_ldd h ds ldd w) = fst (zfs_read_ldd_props h zhp ldd w) \<and>
       fst (snd (zfs_read_ldd h ds ldd w)) = fst (snd (zfs_read_ldd_props h zhp ldd w)) \<and>
       trace (snd (snd (zfs_read_ldd h ds ldd w))) =
         trace w @ [EvOpen ds ZFS_TYPE_FILESYSTEM True, EvClose zhp] \<and>
       open_handles (snd (snd (zfs_read_ldd h ds ldd w))) = open_handles w) \<and>
    (fst (zfs_open ds ZFS_TYPE_FILESYSTEM w) = None \<and>
     fst (zfs_open ds ZFS_TYPE_SNAPSHOT w) = Some zhp \<longrightarrow>
       fst (zfs_read_ldd h ds ldd w) = fst (zfs_read_ldd_props h zhp ldd w) \<and>
       fst (snd (zfs_read_ldd h ds ldd w)) = fst (snd (zfs_read_ldd_props h zhp ldd w)) \<and>
       trace (snd (snd (zfs_read_ldd h ds ldd w))) =
         trace w @ [EvOpen ds ZFS_TYPE_FILESYSTEM False, EvOpen ds ZFS_TYPE_SNAPSHOT True,
                    EvClose zhp] \<and>
       open_handles (snd (snd (zfs_read_ldd h ds ldd w))) = open_handles w)"
proof (intro conjI impI)
  assume "fst (zfs_open ds ZFS_TYPE_FILESYSTEM w) = None \<and> fst (zfs_open ds ZFS_TYPE_SNAPSHOT w) = None"
  then show "zfs_read_ldd h ds ldd w =
         (EINVAL, ldd, w\<lparr>trace := trace w @ [EvOpen ds ZFS_TYPE_FILESYSTEM False,
                                              EvOpen ds ZFS_TYPE_SNAPSHOT False]\<rparr>)"
    by (auto simp: zfs_read_ldd_def osd_check_ready [OF ready] zfs_open_def
             split: option.splits if_splits)
next
  assume o: "fst (zfs_open ds ZFS_TYPE_FILESYSTEM w) = Some zhp"
  define w1 where "w1 = w\<lparr>open_handles := ds # open_handles w,
                            trace := trace w @ [EvOpen ds ZFS_TYPE_FILESYSTEM True]\<rparr>"
  from o have z: "zhp = ds" and op: "zfs_open ds ZFS_TYPE_FILESYSTEM w = (Some ds, w1)"
    by (auto simp: zfs_open_def w1_def split: option.splits if_splits)
  have r: "zfs_read_ldd h ds ldd w =
        (case zfs_read_ldd_props h ds ldd w1 of (ret, ldd', w2) \<Rightarrow> (ret, ldd', zfs_close ds w2))"
    by (simp add: zfs_read_ldd_def osd_check_ready [OF ready] op)
  have "datasets w1 = datasets w" "mem_avail w1 = mem_avail w"
    "open_handles w1 = ds # open_handles w"
    "trace w1 = trace w @ [EvOpen ds ZFS_TYPE_FILESYSTEM True]"
    by (simp_all add: w1_def)
  from read_after_open [OF this r [symmetric]]
  show "fst (zfs_read_ldd h ds ldd w) = fst (zfs_read_ldd_props h zhp ldd w)"
    "fst (snd (zfs_read_ldd h ds ldd w)) = fst (snd (zfs_read_ldd_props h zhp ldd w))"
    "trace (snd (snd (zfs_read_ldd h ds ldd w))) =
         trace w @ [EvOpen ds ZFS_TYPE_FILESYSTEM True, EvClose zhp]"
    "open_handles (snd (snd (zfs_read_ldd h ds ldd w))) = open_handles w"
    by (simp_all add: z)
next
  assume o: "fst (zfs_open ds ZFS_TYPE_FILESYSTEM w) = None \<and>
     fst (zfs_open ds ZFS_TYPE_SNAPSHOT w) = Some zhp"
  define w1 where "w1 = w\<lparr>trace := trace w @ [EvOpen ds ZFS_TYPE_FILESYSTEM False]\<rparr>"
  define w2 where "w2 = w\<lparr>open_handles := ds # open_handles w,
                            trace := trace w @ [EvOpen ds ZFS_TYPE_FILESYSTEM False,
                                                EvOpen ds ZFS_TYPE_SNAPSHOT True]\<rparr>"
  from o have z: "zhp = ds" and op1: "zfs_open ds ZFS_TYPE_FILESYSTEM w = (None, w1)"
    and op2: "zfs_open ds ZFS_TYPE_SNAPSHOT w1 = (Some ds, w2)"
    by (auto simp: zfs_open_def w1_def w2_def split: option.splits if_splits)
  have r: "zfs_read_ldd h ds ldd w =
        (case zfs_read_ldd_props h ds ldd w2 of (ret, ldd', w3) \<Rightarrow> (ret, ldd', zfs_close ds w3))"
    by (simp add: zfs_read_ldd_def osd_check_ready [OF ready] op1 op2)
  have "datasets w2 = datasets w" "mem_avail w2 = mem_avail w"
    "open_handles w2 = ds # open_handles w"
    "trace w2 = trace w @ [EvOpen ds ZFS_TYPE_FILESYSTEM False, EvOpen ds ZFS_TYPE_SNAPSHOT True]"
    by (simp_all add: w2_def)
  from read_after_open [OF this r [symmetric]]
  show "fst (zfs_read_ldd h ds ldd w) = fst (zfs_read_ldd_props h zhp ldd w)"
    "fst (snd (zfs_read_ldd h ds ldd w)) = fst (snd (zfs_read_ldd_props h zhp ldd w))"
    "trace (snd (snd (zfs_read_ldd h ds ldd w))) =
         trace w @ [EvOpen ds ZFS_TYPE_FILESYSTEM False, EvOpen ds ZFS_TYPE_SNAPSHOT True,
                    EvClose zhp]"
    "open_handles (snd (snd (zfs_read_ldd h ds ldd w))) = open_handles w"
    by (simp_all add: z)
qed


theorem zfs_read_ldd_snapshot_fallback_witness:
  "fst (zfs_open ''pool/ost0@backup'' ZFS_TYPE_FILESYSTEM example_world) = None \<and>
   fst (zfs_open ''pool/ost0@backup'' ZFS_TYPE_SNAPSHOT example_world) =
     Some ''pool/ost0@backup'' \<and>
   fst (zfs_read_ldd example_hdr ''pool/ost0@backup'' example_ldd example_world) = 0 \<and>
   fst (snd (zfs_read_ldd example_hdr ''pool/ost0@backup'' example_ldd example_world)) =
     example_ldd\<lparr>ldd_config_ver := 1, ldd_svname := ''lustre-OST0000'',
                 ldd_params := ''opt1=a '', ldd_mount_type := 4\<rparr> \<and>
   fst (zfs_read_ldd example_hdr ''pool/none'' example_ldd example_world) = EINVAL"
proof -
  have ready: "osd_zfs_setup example_world = 1"
    by (simp add: example_world_def)
  have o: "fst (zfs_open ''pool/ost0@backup'' ZFS_TYPE_FILESYSTEM example_world) = None \<and>
           fst (zfs_open ''pool/ost0@backup'' ZFS_TYPE_SNAPSHOT example_world) =
             Some ''pool/ost0@backup''"
    by (simp add: zfs_open_def example_world_def)
  have n: "fst (zfs_open ''pool/none'' ZFS_TYPE_FILESYSTEM example_world) = None \<and>
           fst (zfs_open ''pool/none'' ZFS_TYPE_SNAPSHOT example_world) = None"
    by (simp add: zfs_open_def example_world_def)
  have p: "zfs_read_ldd_props example_hdr ''pool/ost0@backup'' example_ldd example_world =
     (0, example_ldd\<lparr>ldd_config_ver := 1, ldd_svname := ''lustre-OST0000'',
                      ldd_params := ''opt1=a '', ldd_mount_type := 4\<rparr>, alloc example_world)"
    by (simp add: zfs_read_ldd_props_def special_ldd_prop_params_def prop_names
          zfs_get_prop_int_def zfs_get_prop_str_def zfs_get_user_props_def
          nvlist_lookup_nvlist_def nvlist_lookup_string_def example_world_def strtoul_def
          isspace_def digit_of_def isdigit_def ULONG_MAX_def Let_def zfs_get_prop_params_def
          example_ldd_def example_hdr_def add_param_spec_def strncmp_eq_def
          zfs_is_special_ldd_prop_param_def alloc_def ENOENT_def)
  have a: "fst (zfs_read_ldd example_hdr ''pool/ost0@backup'' example_ldd example_world) = 0 \<and>
     fst (snd (zfs_read_ldd example_hdr ''pool/ost0@backup'' example_ldd example_world)) =
       example_ldd\<lparr>ldd_config_ver := 1, ldd_svname := ''lustre-OST0000'',
                   ldd_params := ''opt1=a '', ldd_mount_type := 4\<rparr>"
    using zfs_read_ldd_snapshot_fallback
            [OF ready, THEN conjunct2, THEN conjunct2, rule_format, OF o,
             of example_hdr example_ldd] p
    by simp
  have b: "fst (zfs_read_ldd example_hdr ''pool/none'' example_ldd example_world) = EINVAL"
    using zfs_read_ldd_snapshot_fallback
            [OF ready, THEN conjunct1, rule_format, OF n, of example_hdr example_ldd]
    by simp
  from o a b show ?thesis by blast
qed

subsection \<open>Handles\<close>

lemma zfs_prop_set_handles:
  "open_handles (snd (zfs_prop_set zhp pname s w)) = open_handles w"
  by (auto simp: zfs_prop_set_def Let_def split: option.splits)

lemma osd_check_handles:
  "osd_check_zfs_setup w = (ok, w0) \<Longrightarrow> open_handles w0 = open_handles w"
  by (auto simp: osd_check_zfs_setup_def eprintf_def fatal_def split: if_splits)

lemma zfs_open_handles:
  "zfs_open ds ty w = (r, w1) \<Longrightarrow>
   (r = None \<and> open_handles w1 = open_handles w) \<or>
   (r = Some ds \<and> open_handles w1 = ds # open_handles w)"
  by (auto simp: zfs_open_def split: option.splits if_splits)

lemma read_props_then_close:
  "open_handles w1 = ds # hs \<Longrightarrow>
   zfs_read_ldd_props h ds ldd w1 = (ret, ldd', w2) \<Longrightarrow>
   open_handles (zfs_close ds w2) = hs"
  using zfs_read_ldd_props_handles [of h ds ldd w1] by (simp add: zfs_close_def)

lemma zfs_read_ldd_closes:
  "open_handles (snd (snd (zfs_read_ldd h ds ldd w))) = open_handles w"
proof -
  obtain ok w0 where c: "osd_check_zfs_setup w = (ok, w0)"
    by (cases "osd_check_zfs_setup w")
  note h0 = osd_check_handles [OF c]
  obtain r1 w1 where o1: "zfs_open ds ZFS_TYPE_FILESYSTEM w0 = (r1, w1)"
    by (cases "zfs_open ds ZFS_TYPE_FILESYSTEM w0")
  obtain r2 w2 where o2: "zfs_open ds ZFS_TYPE_SNAPSHOT w1 = (r2, w2)"
    by (cases "zfs_open ds ZFS_TYPE_SNAPSHOT w1")
  obtain a1 l1 v1 where p1: "zfs_read_ldd_props h ds ldd w1 = (a1, l1, v1)"
    by (cases "zfs_read_ldd_props h ds ldd w1")
  obtain a2 l2 v2 where p2: "zfs_read_ldd_props h ds ldd w2 = (a2, l2, v2)"
    by (cases "zfs_read_ldd_props h ds ldd w2")
  show ?thesis
  proof (cases "ok = 0")
    case True
    with c h0 show ?thesis by (simp add: zfs_read_ldd_def)
  next
    case False
    from zfs_open_handles [OF o1] show ?thesis
    proof (elim disjE conjE)
      assume r1: "r1 = Some ds" and "open_handles w1 = ds # open_handles w0"
      from read_props_then_close [OF this(2) p1] h0 False c o1 r1 p1 show ?thesis
        by (simp add: zfs_read_ldd_def)
    next
      assume r1: "r1 = None" and h1: "open_handles w1 = open_handles w0"
      from zfs_open_handles [OF o2] show ?thesis
      proof (elim disjE conjE)
        assume r2: "r2 = Some ds" and "open_handles w2 = ds # open_handles w1"
        from read_props_then_close [OF this(2) p2] h0 h1 False c o1 o2 r1 r2 p2 show ?thesis
          by (simp add: zfs_read_ldd_def)
      next
        assume "r2 = None" and "open_handles w2 = open_handles w1"
        with h0 h1 False c o1 o2 r1 show ?thesis
          by (simp add: zfs_read_ldd_def)
      qed
    qed
  qed
qed

lemma zfs_label_lustre_closes:
  "open_handles (snd (zfs_label_lustre mnt w)) = open_handles w"
proof -
  obtain ok w0 where c: "osd_check_zfs_setup w = (ok, w0)"
    by (cases "osd_check_zfs_setup w")
  note h0 = osd_check_handles [OF c]
  obtain r1 w1 where o1: "zfs_open (mo_source mnt) ZFS_TYPE_FILESYSTEM w0 = (r1, w1)"
    by (cases "zfs_open (mo_source mnt) ZFS_TYPE_FILESYSTEM w0")
  obtain a w2 where s: "zfs_set_prop_str (mo_source mnt) LDD_SVNAME_PROP
                          (Some (ldd_svname (mo_ldd_mnt mnt))) w1 = (a, w2)"
    by (cases "zfs_set_prop_str (mo_source mnt) LDD_SVNAME_PROP
                 (Some (ldd_svname (mo_ldd_mnt mnt))) w1")
  have h2: "open_handles w2 = open_handles w1"
    using s zfs_prop_set_handles [of "mo_source mnt" LDD_SVNAME_PROP "ldd_svname (mo_ldd_mnt mnt)" w1]
    by (auto simp: zfs_set_prop_str_def split: if_splits)
  show ?thesis
  proof (cases "ok = 0")
    case True
    with c h0 show ?thesis by (simp add: zfs_label_lustre_def)
  next
    case False
    from zfs_open_handles [OF o1] show ?thesis
    proof (elim disjE conjE)
      assume "r1 = Some (mo_source mnt)" and "open_handles w1 = mo_source mnt # open_handles w0"
      with h0 h2 False c o1 s show ?thesis
        by (simp add: zfs_label_lustre_def zfs_close_def)
    next
      assume "r1 = None" and "open_handles w1 = open_handles w0"
      with h0 False c o1 show ?thesis
        by (simp add: zfs_label_lustre_def)
    qed
  qed
qed


lemma zfs_check_hostid_cong:
  "spl_hostid w1 = spl_hostid w \<Longrightarrow> etc_hostid w1 = etc_hostid w \<Longrightarrow>
   fst (zfs_check_hostid h mop w1) = fst (zfs_check_hostid h mop w)"
  by (auto simp: zfs_check_hostid_def zfs_check_hostid_out_def Let_def
           split: spl_file.splits hostid_file.splits)

lemma zfs_check_hostid_handles:
  "open_handles (snd (zfs_check_hostid h mop w)) = open_handles w"
  by (auto simp: zfs_check_hostid_def zfs_check_hostid_out_def Let_def eprintf_def fatal_def
           split: spl_file.splits hostid_file.splits)

lemma zfs_write_ldd_leaks_on_hostid_failure:
  assumes ready: "osd_zfs_setup w = 1"
    and op: "fst (zfs_open (mo_device mop) ZFS_TYPE_FILESYSTEM w) = Some zhp"
    and chk: "fst (zfs_check_hostid h mop w) \<noteq> 0"
  shows "\<exists>w'. zfs_write_ldd h mop w = Some (fst (zfs_check_hostid h mop w), w') \<and>
              open_handles w' = mo_device mop # open_handles w"
proof -
  define w1 where "w1 = w\<lparr>open_handles := mo_device mop # open_handles w,
                    trace := trace w @ [EvOpen (mo_device mop) ZFS_TYPE_FILESYSTEM True]\<rparr>"
  from op have o: "zfs_open (mo_device mop) ZFS_TYPE_FILESYSTEM w = (Some (mo_device mop), w1)"
    by (auto simp: zfs_open_def w1_def split: option.splits if_splits)
  have c: "fst (zfs_check_hostid h mop w1) = fst (zfs_check_hostid h mop w)"
    by (rule zfs_check_hostid_cong) (simp_all add: w1_def)
  obtain r w2 where k: "zfs_check_hostid h mop w1 = (r, w2)"
    by (cases "zfs_check_hostid h mop w1")
  with c chk have r: "r = fst (zfs_check_hostid h mop w)" "r \<noteq> 0" by simp_all
  have "open_handles w2 = mo_device mop # open_handles w"
    using zfs_check_hostid_handles [of h mop w1] k by (simp add: w1_def)
  moreover have "zfs_write_ldd h mop w = Some (r, w2)"
    using r(2) by (simp add: zfs_write_ldd_def osd_check_ready [OF ready] o k Let_def)
  ultimately show ?thesis using r(1) by simp
qed

lemma write_bridge_handles:
  "open_handles (snd (write_bridge zhp bs ldd w)) = open_handles w"
proof (induction bs arbitrary: w)
  case Nil
  show ?case by simp
next
  case (Cons b bs)
  have s: "open_handles (snd (zlpb_set_prop_fn b zhp ldd w)) = open_handles w"
    by (cases b)
       (auto simp: zfs_set_prop_int_def zfs_set_prop_str_def zfs_prop_set_handles)
  obtain r w1 where k: "zlpb_set_prop_fn b zhp ldd w = (r, w1)"
    by (cases "zlpb_set_prop_fn b zhp ldd w")
  with s Cons.IH [of w1] show ?case by simp
qed

lemma set_params_loop_handles:
  "zfs_set_prop_params_loop zhp token save_token ret w = Some y \<Longrightarrow>
   open_handles (snd y) = open_handles w"
proof (erule zfs_set_prop_params_loop.raw_induct [rotated])
  fix f zhp token save_token ret w y
  assume IH: "\<And>zhp token save_token ret w y. f zhp token save_token ret w = Some y \<Longrightarrow>
                open_handles (snd y) = open_handles w"
    and step: "(case token of
        None \<Rightarrow> Some (ret, w)
      | Some tok \<Rightarrow>
          (case strtok_r tok ''='' of
             None \<Rightarrow> f zhp (Some tok) save_token ret w
           | Some (key, rest) \<Rightarrow>
               (case strtok_r rest ''='' of
                  None \<Rightarrow>
                    f zhp (Some (strtok_buf tok ''='')) save_token ret w
                | Some (val, rest') \<Rightarrow>
                    (case zfs_prop_set zhp (LDD_PREFIX @ key) val w of
                       (ret', w') \<Rightarrow>
                         if ret' \<noteq> 0 then Some (ret', w')
                         else (case strtok_r save_token '' '' of
                                 None \<Rightarrow> f zhp None [] ret' w'
                               | Some (tok', save') \<Rightarrow>
                                   f zhp (Some tok') save' ret' w'))))) = Some y"
  show "open_handles (snd y) = open_handles w"
    using step zfs_prop_set_handles
    by (auto split: option.splits prod.splits if_splits dest!: IH)
       (metis snd_conv)+
qed

lemma zfs_set_prop_params_handles:
  "zfs_set_prop_params zhp params w = Some (ret, w') \<Longrightarrow> open_handles w' = open_handles w"
  by (auto simp: zfs_set_prop_params_def alloc_def split: if_splits option.splits
           dest!: set_params_loop_handles)

lemma zfs_write_ldd_handles:
  assumes "zfs_write_ldd h mop w = Some (ret, w')"
  shows "open_handles w' = open_handles w \<or>
         (ret \<noteq> 0 \<and> open_handles w' = mo_device mop # open_handles w)"
proof -
  obtain ok w0 where c: "osd_check_zfs_setup w = (ok, w0)"
    by (cases "osd_check_zfs_setup w")
  note h0 = osd_check_handles [OF c]
  obtain r1 w1 where o1: "zfs_open (mo_device mop) ZFS_TYPE_FILESYSTEM w0 = (r1, w1)"
    by (cases "zfs_open (mo_device mop) ZFS_TYPE_FILESYSTEM w0")
  obtain r2 w2 where k: "zfs_check_hostid h mop w1 = (r2, w2)"
    by (cases "zfs_check_hostid h mop w1")
  have h2: "open_handles w2 = open_handles w1"
    using zfs_check_hostid_handles [of h mop w1] k by simp
  obtain r3 w3 where b: "write_bridge (mo_device mop) special_ldd_prop_params (mo_ldd mop) w2 = (r3, w3)"
    by (cases "write_bridge (mo_device mop) special_ldd_prop_params (mo_ldd mop) w2")
  have h3: "open_handles w3 = open_handles w2"
    using write_bridge_handles [of "mo_device mop" special_ldd_prop_params "mo_ldd mop" w2] b
    by simp
  show ?thesis
  proof (cases "ok = 0")
    case True
    with assms c h0 show ?thesis by (simp add: zfs_write_ldd_def Let_def)
  next
    case False
    from zfs_open_handles [OF o1] show ?thesis
    proof (elim disjE conjE)
      assume "r1 = None" and "open_handles w1 = open_handles w0"
      with assms c False o1 h0 show ?thesis
        by (auto simp: zfs_write_ldd_def Let_def eprintf_def)
    next
      assume r1: "r1 = Some (mo_device mop)"
        and h1: "open_handles w1 = mo_device mop # open_handles w0"
      show ?thesis
      proof (cases "r2 = 0")
        case False
        with assms c \<open>ok \<noteq> 0\<close> o1 r1 k h0 h1 h2 show ?thesis
          by (auto simp: zfs_write_ldd_def Let_def)
      next
        case True
        show ?thesis
        proof (cases r3)
          case (Some e)
          with assms c \<open>ok \<noteq> 0\<close> o1 r1 k True b h0 h1 h2 h3 show ?thesis
            by (auto simp: zfs_write_ldd_def Let_def zfs_close_def)
        next
          case None
          with assms c \<open>ok \<noteq> 0\<close> o1 r1 k True b
          obtain r4 w4 where p: "zfs_set_prop_params (mo_device mop) (ldd_params (mo_ldd mop)) w3 = Some (r4, w4)"
            and w': "w' = zfs_close (mo_device mop) w4"
            by (auto simp: zfs_write_ldd_def Let_def split: option.splits)
          from zfs_set_prop_params_handles [OF p] w' h0 h1 h2 h3 show ?thesis
            by (simp add: zfs_close_def)
        qed
      qed
    qed
  qed
qed

text \<open>
  C2, as the code has it. \<^verbatim>\<open>zfs_read_ldd\<close> and \<^verbatim>\<open>zfs_label_lustre\<close> leave the open
  handles as they found them on every path (\<open>zfs_read_ldd_closes\<close>,
  \<open>zfs_label_lustre_closes\<close>). \<^verbatim>\<open>zfs_write_ldd\<close> does not: whenever the host-id check
  fails after the open has succeeded it leaves by \<^verbatim>\<open>goto out\<close>, past the
  \<^verbatim>\<open>zfs_close\<close> at \<^verbatim>\<open>out_close\<close> (\<open>zfs_write_ldd_leaks_on_hostid_failure\<close>), and
  this is its only path that keeps the handle (\<open>zfs_write_ldd_handles\<close>). For a target
  with a failover node and a host id of 0 it returns \<^verbatim>\<open>EINVAL\<close> with the handle of
  \<^verbatim>\<open>pool/ost0\<close> still open, and the calls made are the open and the two host-id files:
  no close.
\<close>

theorem zfs_write_ldd_hostid_leak: 
  "map_option (\<lambda>(ret, w'). (ret, open_handles w', trace w'))
     (zfs_write_ldd example_hdr failnode_mop example_world) =
   Some (EINVAL, [''pool/ost0''],
         [EvOpen ''pool/ost0'' ZFS_TYPE_FILESYSTEM True, EvFopen SPL_HOSTID_PATH, EvFopen HOSTID_PATH])"
  by (simp add: zfs_write_ldd_def osd_check_zfs_setup_def zfs_open_def zfs_check_hostid_def
      zfs_check_hostid_out_def failnode_mop_def example_mop_def example_ldd_def example_world_def
      example_hdr_def eprintf_def fatal_def Let_def EINVAL_def)


subsection \<open>Recognition\<close>

lemma zfs_is_lustre_iff:
  "fst (zfs_is_lustre h ds tmp mt w) = 1 \<longleftrightarrow>
     fst (zfs_read_ldd h ds tmp w) = 0 \<and>
     0 < ldd_config_ver (fst (snd (zfs_read_ldd h ds tmp w))) \<and>
     ldd_svname (fst (snd (zfs_read_ldd h ds tmp w))) \<noteq> []"
proof (cases "osd_zfs_setup w = 0")
  case True
  obtain ok w0 where c: "osd_check_zfs_setup w = (ok, w0)"
    by (cases "osd_check_zfs_setup w")
  with True have "ok = 0" by (simp add: osd_check_zfs_setup_def)
  with c have "fst (zfs_read_ldd h ds tmp w) = EINVAL"
    by (simp add: zfs_read_ldd_def)
  with True show ?thesis by (simp add: zfs_is_lustre_def EINVAL_def)
next
  case False
  then show ?thesis by (auto simp: zfs_is_lustre_def split: prod.splits)
qed

lemma zfs_is_lustre_zeroed:
  assumes "osd_zfs_setup w = 1" and "map_of (datasets w) ds = Some d"
    and "ds_props d = Some []" and "ldd_config_ver tmp = 0 \<or> ldd_svname tmp = []"
  shows "fst (zfs_is_lustre h ds tmp mt w) = 0"
  using assms
  by (auto simp: zfs_is_lustre_def zfs_read_ldd_def zfs_read_ldd_props_def osd_check_zfs_setup_def
        zfs_open_def special_ldd_prop_params_def zfs_get_prop_int_def zfs_get_prop_str_def
        zfs_get_user_props_def nvlist_lookup_nvlist_def zfs_get_prop_params_def Let_def ENOENT_def ENOMEM_def
        split: zfs_type.splits)


text \<open>
  C5, as the code has it. \<^verbatim>\<open>zfs_is_lustre\<close> returns 1 exactly when the read returns 0
  and the scratch record then holds a version above 0 and a service name that is not empty
  (\<open>zfs_is_lustre_iff\<close>). But the scratch record is not initialised, and a read that
  finds no property leaves its fields as they were: on the filesystem \<^verbatim>\<open>pool/ost0\<close>,
  which has no user property at all, with a scratch record that happens to hold version 1
  and service name \<^verbatim>\<open>x\<close>, the function returns 1 and reports the mount type. The claim's
  answer 0 comes out only when the stale version is 0 or the stale name is empty
  (\<open>zfs_is_lustre_zeroed\<close>).
\<close>

theorem zfs_is_lustre_stale_scratch:
  "zfs_get_user_props ''pool/ost0'' example_world = Some [] \<and>
   fst (zfs_is_lustre example_hdr ''pool/ost0'' stale_ldd 0 example_world) = 1 \<and>
   fst (snd (zfs_is_lustre example_hdr ''pool/ost0'' stale_ldd 0 example_world)) = 4"
  by (simp add: zfs_is_lustre_def zfs_read_ldd_def zfs_read_ldd_props_def
        osd_check_zfs_setup_def zfs_open_def zfs_close_def special_ldd_prop_params_def
        prop_names zfs_get_prop_int_def zfs_get_prop_str_def zfs_get_user_props_def
        nvlist_lookup_nvlist_def zfs_get_prop_params_def alloc_def stale_ldd_def
        example_world_def example_hdr_def Let_def ENOENT_def)

end
